theory Spec2Isabelle
  imports Complex_Main "HOL-Library.Log_Nat" "HOL-Library.Multiset"
begin

section \<open>Python values and errors\<close>

text \<open>
  The backend is Python.  Integers are unbounded (\<open>int\<close>), strings are \<open>string\<close>, and
  every exception a modelled function can raise is a value of \<open>py_error\<close>; a function that
  can raise returns \<open>py_error + 'a\<close> with \<open>Inl\<close> for the exception.  \<open>Exception msg\<close> is the
  plain \<^verbatim>\<open>Exception(msg)\<close> that \<^verbatim>\<open>AuthService.verify_jwt\<close> raises, \<open>IntegrityError\<close> the error of
  a commit that violates a constraint of a table.  A \<open>py_value\<close> is a value of a keyword
  argument or of a token's payload: an int, a string, or a \<^verbatim>\<open>datetime\<close> (in microseconds since
  the epoch, its resolution).
\<close>

datatype py_error =
    ZeroDivisionError
  | OverflowError
  | ValueError
  | TypeError
  | KeyError
  | IntegrityError
  | Exception string

datatype py_value = VInt int | VStr string | VDatetime int

section \<open>Floats: \<^verbatim>\<open>int / int\<close> and \<^verbatim>\<open>round(x, 2)\<close>\<close>

text \<open>
  A Python float is an IEEE binary64 number.  Every finite binary64 number is a rational,
  so a float is modelled by the rational it denotes (\<open>-0.0\<close> and \<open>0.0\<close> both by \<open>0\<close>; Python
  compares them equal).  \<open>binary64_round\<close> is the rounding every correctly rounded operation
  ends with: to the nearest number \<open>m * 2^e\<close> with \<open>\<bar>m\<bar> \<le> 2^53\<close> and \<open>e \<ge> -1074\<close>, a tie
  going to the even \<open>m\<close>.
\<close>

definition round_half_even :: "rat \<Rightarrow> int" where
  "round_half_even x =
     (let f = \<lfloor>x\<rfloor>; d = x - of_int f
      in if d < 1 / 2 then f
         else if 1 / 2 < d then f + 1
         else if even f then f else f + 1)"

definition floor_log2 :: "rat \<Rightarrow> int" where
  \<comment> \<open>for \<open>0 < x\<close>: the \<open>k\<close> with \<open>2^k \<le> x < 2^(k+1)\<close>\<close>
  "floor_log2 x =
     (let k = bitlen (fst (quotient_of x)) - bitlen (snd (quotient_of x))
      in if 2 powi k \<le> x then k else k - 1)"

definition binary64_exponent :: "rat \<Rightarrow> int" where
  \<comment> \<open>the exponent of the last mantissa bit; \<open>-1074\<close> is that of the subnormal numbers\<close>
  "binary64_exponent x = max (- 1074) (floor_log2 \<bar>x\<bar> - 52)"

definition binary64_round :: "rat \<Rightarrow> rat" where
  "binary64_round x =
     (let e = binary64_exponent x
      in of_int (round_half_even (x / 2 powi e)) * 2 powi e)"

text \<open>
  \<^verbatim>\<open>a / b\<close> on two ints is true division: CPython computes the correctly rounded quotient,
  raises \<^verbatim>\<open>ZeroDivisionError\<close> for \<open>b = 0\<close> and \<^verbatim>\<open>OverflowError\<close> when the rounded quotient
  is beyond the largest float.
\<close>

definition py_truediv :: "int \<Rightarrow> int \<Rightarrow> py_error + rat" where
  "py_truediv a b =
     (if b = 0 then Inl ZeroDivisionError
      else let y = binary64_round (of_int a / of_int b)
           in if 2 ^ 1024 \<le> \<bar>y\<bar> then Inl OverflowError else Inr y)"

text \<open>
  \<^verbatim>\<open>round(x, ndigits)\<close> on a float, for \<open>ndigits \<ge> 0\<close>: CPython rounds the exact value of
  \<open>x\<close> to \<open>ndigits\<close> decimal places, a tie going to the even last digit, and returns the
  float nearest to that decimal.
\<close>

definition py_round :: "rat \<Rightarrow> nat \<Rightarrow> rat" where
  "py_round x ndigits =
     binary64_round (of_int (round_half_even (x * 10 ^ ndigits)) / 10 ^ ndigits)"

section \<open>The data model (\<^verbatim>\<open>models.py\<close>)\<close>

text \<open>
  The rows of the two tables.  The primary keys \<^verbatim>\<open>User.id\<close> and \<^verbatim>\<open>GameResult.id\<close> are the
  fields \<open>u_id\<close> and \<open>r_id\<close> (\<open>id\<close> is the identity function of HOL).  The database is the
  state every endpoint reads and returns.
\<close>

record user =
  u_id :: int
  username :: string
  email :: string
  password_hash :: string
  created_at :: int
  last_login :: "int option"

record game_result =
  r_id :: int
  user_id :: int
  score :: int
  moves :: int
  time_taken :: int
  difficulty :: "string option"
  grid_size :: "string option"
  completed :: bool
  played_at :: int

record database =
  users :: "user list"
  game_results :: "game_result list"

text \<open>
  \<^verbatim>\<open>User(**kwargs)\<close> is the constructor SQLAlchemy gives a declarative model: it raises
  \<^verbatim>\<open>TypeError\<close> for a keyword that is not an attribute of the class and sets the others.
  \<open>user_attributes\<close> are the names the class body of \<^verbatim>\<open>User\<close> declares; the names the class
  inherits besides are not among the keywords of any call in \<^verbatim>\<open>app.py\<close>.
\<close>

definition user_attributes :: "string list" where
  "user_attributes =
     [''__tablename__'', ''id'', ''username'', ''email'', ''password_hash'', ''created_at'',
      ''last_login'', ''game_results'', ''to_dict'']"

definition User :: "(string \<times> py_value) list \<Rightarrow> py_error + (string \<times> py_value) list" where
  "User kwargs =
     (if list_all (\<lambda>k. k \<in> set user_attributes) (map fst kwargs) then Inr kwargs
      else Inl TypeError)"

text \<open>
  \<^verbatim>\<open>db.session.add(user); db.session.commit()\<close> inserts the row.  \<^verbatim>\<open>username\<close>, \<^verbatim>\<open>email\<close> and
  \<^verbatim>\<open>password_hash\<close> are \<^verbatim>\<open>nullable=False\<close>, \<^verbatim>\<open>username\<close> and \<^verbatim>\<open>email\<close> are \<^verbatim>\<open>unique=True\<close>:
  the commit raises \<^verbatim>\<open>IntegrityError\<close> when one is violated.  The key is the next row id
  and \<^verbatim>\<open>created_at\<close> defaults to the clock reading \<open>now\<close> of the insert.
\<close>

definition next_user_id :: "database \<Rightarrow> int" where
  "next_user_id db = fold max (map u_id (users db)) 0 + 1"

definition add_commit_user ::
  "database \<Rightarrow> int \<Rightarrow> (string \<times> py_value) list \<Rightarrow> py_error + user \<times> database" where
  "add_commit_user db now obj =
     (case (map_of obj ''username'', map_of obj ''email'', map_of obj ''password_hash'') of
        (Some (VStr n), Some (VStr e), Some (VStr h)) \<Rightarrow>
          if list_ex (\<lambda>u. username u = n \<or> email u = e) (users db) then Inl IntegrityError
          else
            let u = \<lparr>u_id = next_user_id db, username = n, email = e, password_hash = h,
                     created_at = (case map_of obj ''created_at'' of
                                     Some (VDatetime t) \<Rightarrow> t | _ \<Rightarrow> now),
                     last_login = (case map_of obj ''last_login'' of
                                     Some (VDatetime t) \<Rightarrow> Some t | _ \<Rightarrow> None)\<rparr>
            in Inr (u, db\<lparr>users := users db @ [u]\<rparr>)
      | _ \<Rightarrow> Inl IntegrityError)"

text \<open>
  \<^verbatim>\<open>User.to_dict\<close>: the id, the username, the email, \<^verbatim>\<open>created_at\<close> and \<^verbatim>\<open>last_login\<close>, without
  the password hash.
\<close>

datatype user_dict = UserDict int string string int "int option"

definition to_dict :: "user \<Rightarrow> user_dict" where
  "to_dict u = UserDict (u_id u) (username u) (email u) (created_at u) (last_login u)"

section \<open>Credentials (\<^verbatim>\<open>auth.py\<close>)\<close>

subsection \<open>Password hashes\<close>

text \<open>
  \<^verbatim>\<open>hash_password\<close> and \<^verbatim>\<open>verify_password\<close> hand their arguments to \<^verbatim>\<open>generate_password_hash\<close>
  and \<^verbatim>\<open>check_password_hash\<close> of \<^verbatim>\<open>werkzeug.security\<close>, a library outside the repository.
  The model follows the library (version 3): a stored hash is \<^verbatim>\<open>method$salt$digest\<close>;
  \<^verbatim>\<open>_hash_internal\<close> accepts the methods named \<^verbatim>\<open>scrypt\<close> and \<^verbatim>\<open>pbkdf2\<close> (a name is what stands
  before the first colon, the parameters follow it) and raises \<^verbatim>\<open>ValueError\<close> for any other
  name.  What \<^verbatim>\<open>hashlib\<close> does for an accepted method is the parameter \<open>kdf\<close>: from the method
  string, the salt and the password it returns the digest in hex together with the method
  string spelled with all its parameters, or raises.  The salt that \<^verbatim>\<open>gen_salt(16)\<close> draws at
  random is an argument.
\<close>

type_synonym kdf = "string \<Rightarrow> string \<Rightarrow> string \<Rightarrow> py_error + string \<times> string"

definition SALT_CHARS :: string where
  "SALT_CHARS = ''abcdefghijklmnopqrstuvwxyzABCDEFGHIJKLMNOPQRSTUVWXYZ0123456789''"

definition gen_salt_range :: "nat \<Rightarrow> string \<Rightarrow> bool" where
  \<comment> \<open>the strings \<^verbatim>\<open>gen_salt(length)\<close> can return\<close>
  "gen_salt_range len salt \<longleftrightarrow> length salt = len \<and> list_all (\<lambda>c. c \<in> set SALT_CHARS) salt"

definition method_name :: "string \<Rightarrow> string" where
  "method_name method = takeWhile (\<lambda>c. c \<noteq> CHR '':'') method"

definition hash_internal :: "kdf \<Rightarrow> string \<Rightarrow> string \<Rightarrow> string \<Rightarrow> py_error + string \<times> string" where
  "hash_internal kdf method salt password =
     (if method_name method = ''scrypt'' \<or> method_name method = ''pbkdf2''
      then kdf method salt password
      else Inl ValueError)"

definition generate_password_hash :: "kdf \<Rightarrow> string \<Rightarrow> string \<Rightarrow> py_error + string" where
  "generate_password_hash kdf salt password =
     (case hash_internal kdf ''scrypt'' salt password of
        Inl e \<Rightarrow> Inl e
      | Inr (h, actual_method) \<Rightarrow> Inr (actual_method @ ''$'' @ salt @ ''$'' @ h))"

text \<open>
  \<^verbatim>\<open>method, salt, hashval = pwhash.split("$", 2)\<close>: the text before the first dollar sign,
  the text between the first and the second, and all the rest; \<open>None\<close> when there are fewer
  than two dollar signs (the unpacking raises \<^verbatim>\<open>ValueError\<close>, which \<^verbatim>\<open>check_password_hash\<close>
  catches).
\<close>

definition split_dollar :: "string \<Rightarrow> (string \<times> string \<times> string) option" where
  "split_dollar pwhash =
     (case dropWhile (\<lambda>c. c \<noteq> CHR ''$'') pwhash of
        [] \<Rightarrow> None
      | _ # r \<Rightarrow>
          (case dropWhile (\<lambda>c. c \<noteq> CHR ''$'') r of
             [] \<Rightarrow> None
           | _ # hashval \<Rightarrow>
               Some (takeWhile (\<lambda>c. c \<noteq> CHR ''$'') pwhash,
                     takeWhile (\<lambda>c. c \<noteq> CHR ''$'') r, hashval)))"

text \<open>\<^verbatim>\<open>hmac.compare_digest\<close> on two strings raises \<^verbatim>\<open>TypeError\<close> unless both are ASCII.\<close>

definition compare_digest :: "string \<Rightarrow> string \<Rightarrow> py_error + bool" where
  "compare_digest a b =
     (if list_all (\<lambda>c. of_char c < (128::nat)) (a @ b) then Inr (a = b) else Inl TypeError)"

definition check_password_hash :: "kdf \<Rightarrow> string \<Rightarrow> string \<Rightarrow> py_error + bool" where
  "check_password_hash kdf pwhash password =
     (case split_dollar pwhash of
        None \<Rightarrow> Inr False
      | Some (method, salt, hashval) \<Rightarrow>
          (case hash_internal kdf method salt password of
             Inl e \<Rightarrow> Inl e
           | Inr (h, actual_method) \<Rightarrow> compare_digest h hashval))"

text \<open>The two static methods of \<^verbatim>\<open>AuthService\<close>; neither catches an exception.\<close>

definition hash_password :: "kdf \<Rightarrow> string \<Rightarrow> string \<Rightarrow> py_error + string" where
  "hash_password kdf salt password = generate_password_hash kdf salt password"

definition verify_password :: "kdf \<Rightarrow> string \<Rightarrow> string \<Rightarrow> py_error + bool" where
  "verify_password kdf pw_hash password = check_password_hash kdf pw_hash password"

subsection \<open>Tokens\<close>

text \<open>
  \<^verbatim>\<open>generate_jwt\<close> and \<^verbatim>\<open>verify_jwt\<close> call \<^verbatim>\<open>jwt.encode\<close> and \<^verbatim>\<open>jwt.decode\<close> of PyJWT, a library
  outside the repository.  A token is modelled by what its three segments decode to: the
  algorithm of its header, its payload and its signature; \<open>NotAToken\<close> is any string that
  does not decode to these.  The signature of a payload is \<open>hmac key (algorithm, payload)\<close>,
  with HMAC-SHA256 the parameter \<open>hmac\<close>.  The model follows the library (version 2):
  \<^verbatim>\<open>encode\<close> turns a \<^verbatim>\<open>datetime\<close> under \<^verbatim>\<open>exp\<close>, \<^verbatim>\<open>iat\<close> or \<^verbatim>\<open>nbf\<close> into whole seconds since the
  epoch; \<^verbatim>\<open>decode\<close> checks the structure, the algorithm and the signature, in that order,
  then that \<^verbatim>\<open>iat\<close> (when present) is an integer not after the current time, then that \<^verbatim>\<open>exp\<close>
  (when present) is an integer after the current time.  Each error is a subclass of
  \<^verbatim>\<open>InvalidTokenError\<close>.  The current time \<open>now\<close> is in microseconds.
\<close>

type_synonym claims = "(string \<times> py_value) list"

type_synonym hmac = "string \<Rightarrow> string \<times> claims \<Rightarrow> string"

datatype token = Token string claims string | NotAToken string

datatype jwt_error =
    DecodeError
  | InvalidAlgorithmError
  | InvalidSignatureError
  | InvalidIssuedAtError
  | ImmatureSignatureError
  | ExpiredSignatureError

definition to_timestamp :: "string \<times> py_value \<Rightarrow> string \<times> py_value" where
  "to_timestamp kv =
     (case kv of
        (k, VDatetime t) \<Rightarrow>
          if k = ''exp'' \<or> k = ''iat'' \<or> k = ''nbf'' then (k, VInt (t div 1000000)) else kv
      | _ \<Rightarrow> kv)"

definition jwt_encode :: "hmac \<Rightarrow> claims \<Rightarrow> string \<Rightarrow> string \<Rightarrow> token" where
  "jwt_encode hmac payload key algorithm =
     (let p = map to_timestamp payload in Token algorithm p (hmac key (algorithm, p)))"

definition validate_iat :: "claims \<Rightarrow> int \<Rightarrow> jwt_error option" where
  "validate_iat payload now =
     (case map_of payload ''iat'' of
        None \<Rightarrow> None
      | Some (VInt iat) \<Rightarrow> if now < iat * 1000000 then Some ImmatureSignatureError else None
      | Some _ \<Rightarrow> Some InvalidIssuedAtError)"

definition validate_exp :: "claims \<Rightarrow> int \<Rightarrow> jwt_error option" where
  "validate_exp payload now =
     (case map_of payload ''exp'' of
        None \<Rightarrow> None
      | Some (VInt expiry) \<Rightarrow>
          if expiry * 1000000 \<le> now then Some ExpiredSignatureError else None
      | Some _ \<Rightarrow> Some DecodeError)"

definition jwt_decode :: "hmac \<Rightarrow> int \<Rightarrow> token \<Rightarrow> string \<Rightarrow> string list \<Rightarrow> jwt_error + claims" where
  "jwt_decode hmac now tok key algorithms =
     (case tok of
        NotAToken s \<Rightarrow> Inl DecodeError
      | Token alg payload sig \<Rightarrow>
          if alg \<notin> set algorithms then Inl InvalidAlgorithmError
          else if sig \<noteq> hmac key (alg, payload) then Inl InvalidSignatureError
          else (case validate_iat payload now of
                  Some e \<Rightarrow> Inl e
                | None \<Rightarrow>
                    (case validate_exp payload now of
                       Some e \<Rightarrow> Inl e
                     | None \<Rightarrow> Inr payload)))"

text \<open>
  The class attributes of \<^verbatim>\<open>AuthService\<close>.  \<^verbatim>\<open>JWT_SECRET\<close> is read from the environment once,
  when the class is created: it is the argument \<open>secret\<close> of both functions.
\<close>

definition JWT_ALGORITHM :: string where
  "JWT_ALGORITHM = ''HS256''"

definition JWT_EXPIRATION_DAYS :: int where
  "JWT_EXPIRATION_DAYS = 7"

definition timedelta_days :: "int \<Rightarrow> int" where
  "timedelta_days days = days * 86400 * 1000000"

text \<open>
  \<^verbatim>\<open>generate_jwt\<close> builds the payload with two calls of \<^verbatim>\<open>datetime.utcnow()\<close>: the first, read
  for \<^verbatim>\<open>exp\<close>, is \<open>now1\<close>, and the second, read for \<^verbatim>\<open>iat\<close>, is \<open>now2\<close>.
\<close>

definition generate_jwt :: "hmac \<Rightarrow> string \<Rightarrow> int \<Rightarrow> int \<Rightarrow> int \<Rightarrow> token" where
  "generate_jwt hmac secret now1 now2 uid =
     jwt_encode hmac
       [(''user_id'', VInt uid),
        (''exp'', VDatetime (now1 + timedelta_days JWT_EXPIRATION_DAYS)),
        (''iat'', VDatetime now2)]
       secret JWT_ALGORITHM"

text \<open>
  \<^verbatim>\<open>verify_jwt\<close> returns \<^verbatim>\<open>payload['user_id']\<close>.  It turns \<^verbatim>\<open>ExpiredSignatureError\<close> into
  \<^verbatim>\<open>Exception('Token expired')\<close> and every other \<^verbatim>\<open>InvalidTokenError\<close> into
  \<^verbatim>\<open>Exception('Invalid token')\<close>; the \<^verbatim>\<open>KeyError\<close> of a payload without \<^verbatim>\<open>user_id\<close> is neither
  and leaves the function as it is.
\<close>

definition verify_jwt :: "hmac \<Rightarrow> string \<Rightarrow> int \<Rightarrow> token \<Rightarrow> py_error + py_value" where
  "verify_jwt hmac secret now tok =
     (case jwt_decode hmac now tok secret [JWT_ALGORITHM] of
        Inr payload \<Rightarrow>
          (case map_of payload ''user_id'' of
             Some uid \<Rightarrow> Inr uid
           | None \<Rightarrow> Inl KeyError)
      | Inl ExpiredSignatureError \<Rightarrow> Inl (Exception ''Token expired'')
      | Inl _ \<Rightarrow> Inl (Exception ''Invalid token''))"

section \<open>Endpoints (\<^verbatim>\<open>app.py\<close>)\<close>

subsection \<open>Statistics: \<^verbatim>\<open>get_user_stats\<close>\<close>

text \<open>The \<^verbatim>\<open>stats\<close> dictionary of the response.\<close>

record stats =
  total_games :: int
  average_score :: rat
  average_moves :: rat
  average_time :: rat
  best_score :: int
  total_time_played :: int

text \<open>\<^verbatim>\<open>max\<close> over an iterable raises \<^verbatim>\<open>ValueError\<close> on an empty one.\<close>

fun py_max :: "int list \<Rightarrow> py_error + int" where
  "py_max [] = Inl ValueError"
| "py_max (x # xs) = Inr (fold max xs x)"

text \<open>
  \<open>compute_stats\<close> is the part of \<^verbatim>\<open>get_user_stats\<close> that works on the rows of the user
  (lines 239 to 265): the all-zero dictionary for no rows, and otherwise the count, the
  three rounded averages, the best score and the total time.
\<close>

definition compute_stats :: "game_result list \<Rightarrow> py_error + stats" where
  "compute_stats results =
     (if results = [] then
        Inr \<lparr>total_games = 0, average_score = 0, average_moves = 0, average_time = 0,
             best_score = 0, total_time_played = 0\<rparr>
      else
        let games = int (length results);
            total_score = sum_list (map score results);
            total_moves = sum_list (map moves results);
            total_time = sum_list (map time_taken results)
        in case py_max (map score results) of
             Inl e \<Rightarrow> Inl e
           | Inr best \<Rightarrow>
          (case py_truediv total_score games of
             Inl e \<Rightarrow> Inl e
           | Inr avg_score \<Rightarrow>
          (case py_truediv total_moves games of
             Inl e \<Rightarrow> Inl e
           | Inr avg_moves \<Rightarrow>
          (case py_truediv total_time games of
             Inl e \<Rightarrow> Inl e
           | Inr avg_time \<Rightarrow>
             Inr \<lparr>total_games = games,
                  average_score = py_round avg_score 2,
                  average_moves = py_round avg_moves 2,
                  average_time = py_round avg_time 2,
                  best_score = best,
                  total_time_played = total_time\<rparr>))))"

text \<open>
  A response is the JSON body with the status code.  The bodies of the modelled endpoints:
  \<^verbatim>\<open>{'error': message}\<close>, \<^verbatim>\<open>user.to_dict()\<close>, the \<^verbatim>\<open>user\<close>, \<^verbatim>\<open>token\<close> and \<^verbatim>\<open>message\<close> of a registration,
  and the \<^verbatim>\<open>user\<close> and \<^verbatim>\<open>stats\<close> of the statistics.
\<close>

datatype body =
    ErrorBody string
  | UserBody user_dict
  | AuthBody user_dict token string
  | StatsBody user_dict stats

type_synonym response = "body \<times> nat"

definition get_user_stats :: "database \<Rightarrow> int \<Rightarrow> py_error + response" where
  "get_user_stats db uid =
     (case find (\<lambda>u. u_id u = uid) (users db) of
        None \<Rightarrow> Inr (ErrorBody ''User not found'', 404)
      | Some u \<Rightarrow>
          (case compute_stats (filter (\<lambda>r. user_id r = uid) (game_results db)) of
             Inl e \<Rightarrow> Inl e
           | Inr st \<Rightarrow> Inr (StatsBody (to_dict u) st, 200)))"

subsection \<open>Registration: \<^verbatim>\<open>register\<close>\<close>

text \<open>
  The pattern \<^verbatim>\<open>^[a-zA-Z0-9._%+-]+@[a-zA-Z0-9.-]+\.[a-zA-Z]{2,}$\<close> under \<^verbatim>\<open>re.match\<close>: one or
  more characters of the first class, an at sign, and a rest that is one or more characters
  of the second class, a dot, and two or more letters up to the end.  No character of the
  first class is an at sign, so the first part is the longest prefix in that class; the
  letters after the dot hold no dot, so the dot is the last one of the rest.  \<^verbatim>\<open>$\<close> also
  matches before a newline that ends the string.
\<close>

definition is_alpha :: "char \<Rightarrow> bool" where
  "is_alpha c \<longleftrightarrow> c \<in> set ''abcdefghijklmnopqrstuvwxyzABCDEFGHIJKLMNOPQRSTUVWXYZ''"

definition local_char :: "char \<Rightarrow> bool" where
  "local_char c \<longleftrightarrow> is_alpha c \<or> c \<in> set ''0123456789._%+-''"

definition domain_char :: "char \<Rightarrow> bool" where
  "domain_char c \<longleftrightarrow> is_alpha c \<or> c \<in> set ''0123456789.-''"

definition strip_newline :: "string \<Rightarrow> string" where
  "strip_newline s = (if s \<noteq> [] \<and> last s = CHR 0x0A then butlast s else s)"

definition domain_match :: "string \<Rightarrow> bool" where
  "domain_match r =
     (let tld = rev (takeWhile (\<lambda>c. c \<noteq> CHR ''.'') (rev r));
          front = rev (dropWhile (\<lambda>c. c \<noteq> CHR ''.'') (rev r))
      in front \<noteq> [] \<and> butlast front \<noteq> [] \<and> list_all domain_char (butlast front) \<and>
         2 \<le> length tld \<and> list_all is_alpha tld)"

definition email_regex_match :: "string \<Rightarrow> bool" where
  "email_regex_match s =
     (takeWhile local_char s \<noteq> [] \<and>
      (case dropWhile local_char s of
         [] \<Rightarrow> False
       | c # r \<Rightarrow> c = CHR ''@'' \<and> domain_match (strip_newline r)))"

text \<open>
  What a request needs besides the database and its body: the secret and the two library
  functions of the credentials, the salt drawn for the password hash, and the readings
  of \<^verbatim>\<open>datetime.utcnow()\<close> in the order the request takes them.
\<close>

record env =
  env_secret :: string
  env_hmac :: hmac
  env_kdf :: kdf
  env_salt :: string
  env_utcnow :: "nat \<Rightarrow> int"

text \<open>
  \<^verbatim>\<open>register\<close>.  The body is a JSON object with string members.  A missing member and an
  empty string are both false for \<^verbatim>\<open>not\<close>.  The \<^verbatim>\<open>try\<close> block hashes the password, builds
  the user (clock reading 0 is \<^verbatim>\<open>last_login\<close>), commits (reading 1 is \<^verbatim>\<open>created_at\<close>) and
  issues the token (readings 2 and 3); an exception in it is answered with status 500, whose
  message is modelled without the exception's text.
\<close>

definition register :: "env \<Rightarrow> database \<Rightarrow> (string \<times> string) list \<Rightarrow> response \<times> database" where
  "register env db data =
     (case (map_of data ''email'', map_of data ''username'', map_of data ''password'') of
        (Some e, Some n, Some p) \<Rightarrow>
          if e = [] \<or> n = [] \<or> p = [] then
            ((ErrorBody ''Email, username, and password are required'', 400), db)
          else if \<not> email_regex_match e then
            ((ErrorBody ''Invalid email format'', 400), db)
          else if find (\<lambda>u. email u = e) (users db) \<noteq> None then
            ((ErrorBody ''Email already registered'', 409), db)
          else if find (\<lambda>u. username u = n) (users db) \<noteq> None then
            ((ErrorBody ''Username already taken'', 409), db)
          else if length p < 6 then
            ((ErrorBody ''Password must be at least 6 characters'', 400), db)
          else
            (case hash_password (env_kdf env) (env_salt env) p of
               Inl err \<Rightarrow> ((ErrorBody ''Registration failed'', 500), db)
             | Inr h \<Rightarrow>
            (case User [(''username'', VStr n), (''email'', VStr e),
                        (''password_hash'', VStr h),
                        (''last_login'', VDatetime (env_utcnow env 0))] of
               Inl err \<Rightarrow> ((ErrorBody ''Registration failed'', 500), db)
             | Inr obj \<Rightarrow>
            (case add_commit_user db (env_utcnow env 1) obj of
               Inl err \<Rightarrow> ((ErrorBody ''Registration failed'', 500), db)
             | Inr (u, db') \<Rightarrow>
                 let tok = generate_jwt (env_hmac env) (env_secret env)
                             (env_utcnow env 2) (env_utcnow env 3) (u_id u)
                 in ((AuthBody (to_dict u) tok ''Registration successful'', 201), db'))))
      | _ \<Rightarrow> ((ErrorBody ''Email, username, and password are required'', 400), db))"

subsection \<open>The endpoint without credentials: \<^verbatim>\<open>create_user\<close>\<close>

text \<open>
  \<^verbatim>\<open>create_user\<close>.  The body is \<open>None\<close> for no JSON, or an object with string members; an
  empty object is false for \<^verbatim>\<open>not\<close>.  An exception leaves the endpoint uncaught.  \<open>now\<close> is
  the clock reading of the commit.
\<close>

definition create_user ::
  "int \<Rightarrow> database \<Rightarrow> (string \<times> string) list option \<Rightarrow> (py_error + response) \<times> database" where
  "create_user now db data =
     (case data of
        None \<Rightarrow> (Inr (ErrorBody ''Username is required'', 400), db)
      | Some d \<Rightarrow>
          (case map_of d ''username'' of
             None \<Rightarrow> (Inr (ErrorBody ''Username is required'', 400), db)
           | Some n \<Rightarrow>
               (case find (\<lambda>u. username u = n) (users db) of
                  Some existing_user \<Rightarrow> (Inr (UserBody (to_dict existing_user), 200), db)
                | None \<Rightarrow>
                    (case User [(''username'', VStr n), (''auth_provider'', VStr ''username'')] of
                       Inl err \<Rightarrow> (Inl err, db)
                     | Inr obj \<Rightarrow>
                         (case add_commit_user db now obj of
                            Inl err \<Rightarrow> (Inl err, db)
                          | Inr (u, db') \<Rightarrow> (Inr (UserBody (to_dict u), 201), db'))))))"

section \<open>What the claims speak of\<close>

text \<open>
  Rounding a quotient to two decimal places.  The two policies the specification names are
  \<open>round_half_even\<close> (banker's rounding, defined with the floats) and \<open>round_half_away\<close>
  (half away from zero); \<open>to_2_places policy q\<close> is the multiple of \<open>1/100\<close> the policy rounds
  \<open>q\<close> to.  The policies differ only at a quotient that lies halfway between two multiples
  of \<open>1/100\<close>.
\<close>

definition round_half_away :: "rat \<Rightarrow> int" where
  "round_half_away x = (if 0 \<le> x then \<lfloor>x + 1 / 2\<rfloor> else \<lceil>x - 1 / 2\<rceil>)"

definition to_2_places :: "(rat \<Rightarrow> int) \<Rightarrow> rat \<Rightarrow> rat" where
  "to_2_places policy q = of_int (policy (q * 100)) / 100"

definition halfway :: "rat \<Rightarrow> bool" where
  "halfway q \<longleftrightarrow> q * 100 - of_int \<lfloor>q * 100\<rfloor> = 1 / 2"

text \<open>
  \<open>rounded_to_2_places q v\<close>: the float \<open>v\<close> is the quotient \<open>q\<close> rounded to two decimal
  places.  For a quotient that is not halfway, \<open>v\<close> is the float nearest to \<open>q\<close> rounded
  under either policy.  For a quotient that is halfway, \<open>v\<close> is the float nearest to the
  lower neighbour when the float nearest to \<open>q\<close> is below \<open>q\<close>, to the upper neighbour
  when it is above \<open>q\<close>, and to the even neighbour when \<open>q\<close> is itself a float.
\<close>

definition rounded_to_2_places :: "rat \<Rightarrow> rat \<Rightarrow> bool" where
  "rounded_to_2_places q v =
     (if \<not> halfway q then
        v = binary64_round (to_2_places round_half_even q) \<and>
        v = binary64_round (to_2_places round_half_away q)
      else if binary64_round q < q then v = binary64_round (of_int \<lfloor>q * 100\<rfloor> / 100)
      else if q < binary64_round q then v = binary64_round (of_int (\<lfloor>q * 100\<rfloor> + 1) / 100)
      else v = binary64_round (to_2_places round_half_even q))"

text \<open>
  A valid row holds what its \<^verbatim>\<open>INTEGER\<close> columns can store: SQLite keeps a signed integer
  of 64 bits and refuses a larger one at the insert.
\<close>

definition int64 :: "int \<Rightarrow> bool" where
  "int64 v \<longleftrightarrow> - (2 ^ 63) \<le> v \<and> v < 2 ^ 63"

definition valid_game_result :: "game_result \<Rightarrow> bool" where
  "valid_game_result r \<longleftrightarrow> int64 (score r) \<and> int64 (moves r) \<and> int64 (time_taken r)"

text \<open>Usernames and emails are unique when no two rows share one.\<close>

definition unique_users :: "database \<Rightarrow> bool" where
  "unique_users db \<longleftrightarrow> distinct (map username (users db)) \<and> distinct (map email (users db))"

text \<open>
  What a token carries and what the verification looks at.  The signature verifies when
  the token decodes, names the algorithm HS256 and carries the signature of its payload
  under the key.  The payload is malformed when \<^verbatim>\<open>iat\<close> is present and is not an integer at
  or before the current time, or \<^verbatim>\<open>exp\<close> is present and is not an integer.  The expiry has
  passed when \<^verbatim>\<open>exp\<close> is an integer at or before the current time.
\<close>

definition payload_of :: "token \<Rightarrow> claims" where
  "payload_of tok = (case tok of Token alg payload sig \<Rightarrow> payload | NotAToken s \<Rightarrow> [])"





definition count_dollar :: "string \<Rightarrow> nat" where
  "count_dollar s = length (filter (\<lambda>c. c = CHR ''$'') s)"

section \<open>Rounding to a float\<close>

lemma round_half_even_error: "\<bar>of_int (round_half_even x) - x\<bar> \<le> 1 / 2"
proof -
  have "of_int \<lfloor>x\<rfloor> \<le> x" "x < of_int \<lfloor>x\<rfloor> + 1" by linarith+
  then show ?thesis
    by (auto simp: round_half_even_def Let_def)
qed

lemma bitlen_powi_bounds:
  assumes "0 < a"
  shows "(2::rat) powi (bitlen a - 1) \<le> of_int a" "of_int a < (2::rat) powi bitlen a"
proof -
  from assms have b: "2 ^ nat (bitlen a - 1) \<le> a" "a < 2 ^ nat (bitlen a)"
    using bitlen_bounds [of a] by auto
  from assms have p: "1 \<le> bitlen a"
    by (auto simp: bitlen_alt_def)
  have "(2::rat) powi (bitlen a - 1) = of_int (2 ^ nat (bitlen a - 1))"
    using p by (simp add: power_int_nonneg_exp)
  also have "\<dots> \<le> of_int a"
    using b(1) by (simp only: of_int_le_iff)
  finally show "(2::rat) powi (bitlen a - 1) \<le> of_int a" .
  have "(of_int a :: rat) < of_int (2 ^ nat (bitlen a))"
    using b(2) by (simp only: of_int_less_iff)
  also have "\<dots> = (2::rat) powi bitlen a"
    using p by (simp add: power_int_nonneg_exp)
  finally show "of_int a < (2::rat) powi bitlen a" .
qed

lemma floor_log2_bounds:
  assumes "0 < x"
  shows "2 powi floor_log2 x \<le> x" and "x < 2 powi (floor_log2 x + 1)"
proof -
  obtain a b where q: "quotient_of x = (a, b)" by (cases "quotient_of x")
  then have b: "0 < b" and x: "x = of_int a / of_int b"
    by (simp_all add: quotient_of_denom_pos quotient_of_div)
  from assms x b have a: "0 < a"
    by (simp add: zero_less_divide_iff)
  define k where "k = bitlen a - bitlen b"
  have fl: "floor_log2 x = (if 2 powi k \<le> x then k else k - 1)"
    by (simp add: floor_log2_def q k_def Let_def)
  note A = bitlen_powi_bounds [OF a] and B = bitlen_powi_bounds [OF b]
  have bpos: "(0::rat) < of_int b" using b by simp
  have lower: "2 powi (k - 1) \<le> x"
  proof -
    have "(2::rat) powi (k - 1) = 2 powi (bitlen a - 1) / 2 powi bitlen b"
      by (simp add: k_def power_int_diff [symmetric] algebra_simps)
    also have "\<dots> \<le> of_int a / 2 powi bitlen b"
      using A(1) by (simp add: divide_right_mono)
    also have "\<dots> \<le> of_int a / of_int b"
      using B(2) a bpos by (simp add: frac_le)
    finally show ?thesis by (simp add: x)
  qed
  have upper: "x < 2 powi (k + 1)"
  proof -
    have "x = of_int a / of_int b" by (fact x)
    also have "\<dots> < 2 powi bitlen a / of_int b"
      using A(2) bpos by (simp add: divide_strict_right_mono)
    also have "\<dots> \<le> 2 powi bitlen a / 2 powi (bitlen b - 1)"
      using B(1) by (simp add: frac_le)
    also have "\<dots> = (2::rat) powi (k + 1)"
      by (simp add: k_def power_int_diff [symmetric] algebra_simps)
    finally show ?thesis .
  qed
  show "2 powi floor_log2 x \<le> x"
    using lower by (simp add: fl)
  show "x < 2 powi (floor_log2 x + 1)"
    using upper by (auto simp: fl not_le)
qed

lemma binary64_round_error:
  "\<bar>binary64_round x - x\<bar> \<le> 2 powi binary64_exponent x / 2"
proof -
  define e where "e = binary64_exponent x"
  have p: "(0::rat) < 2 powi e" by simp
  have "binary64_round x - x = (of_int (round_half_even (x / 2 powi e)) - x / 2 powi e) * 2 powi e"
    using p by (simp add: binary64_round_def e_def Let_def algebra_simps)
  then have "\<bar>binary64_round x - x\<bar> = \<bar>of_int (round_half_even (x / 2 powi e)) - x / 2 powi e\<bar> * 2 powi e"
    using p by (simp add: abs_mult)
  also have "\<dots> \<le> 1 / 2 * 2 powi e"
    using round_half_even_error [of "x / 2 powi e"] p by (simp add: mult_right_mono)
  finally show ?thesis by (simp add: e_def)
qed

lemma round_nearest_unique:
  assumes "\<bar>of_int k - y\<bar> \<le> 1 / 2" and "y - of_int \<lfloor>y\<rfloor> \<noteq> 1 / 2"
  shows "round_half_even y = k" and "round_half_away y = k"
proof -
  define f where "f = \<lfloor>y\<rfloor>"
  have f: "of_int f \<le> y" "y < of_int f + 1"
    unfolding f_def by linarith+
  from assms(1) have k: "of_int k \<le> y + 1 / 2" "y - 1 / 2 \<le> of_int k"
    by linarith+
  from k(1) f(2) have "(of_int k :: rat) < of_int (f + 2)" by simp
  then have 1: "k < f + 2" by (simp only: of_int_less_iff)
  from k(2) f(1) have "(of_int (f - 1) :: rat) < of_int k" by simp
  then have 2: "f - 1 < k" by (simp only: of_int_less_iff)
  from 1 2 have kf: "k = f \<or> k = f + 1" by linarith
  from assms(2) have d: "y - of_int f < 1 / 2 \<or> 1 / 2 < y - of_int f"
    unfolding f_def by linarith
  then show "round_half_even y = k"
  proof
    assume l: "y - of_int f < 1 / 2"
    with k kf have "k = f" by auto
    with l show ?thesis
      by (simp add: round_half_even_def Let_def f_def)
  next
    assume h: "1 / 2 < y - of_int f"
    with k kf have "k = f + 1" by auto
    with h show ?thesis
      by (simp add: round_half_even_def Let_def f_def)
  qed
  from d show "round_half_away y = k"
  proof
    assume l: "y - of_int f < 1 / 2"
    with k kf have kf': "k = f" by auto
    have "\<lfloor>y + 1 / 2\<rfloor> = f"
      using l f by (intro floor_unique) simp_all
    moreover have "\<lceil>y - 1 / 2\<rceil> = f"
      using l f by (intro ceiling_unique) simp_all
    ultimately show ?thesis
      using kf' by (simp add: round_half_away_def)
  next
    assume h: "1 / 2 < y - of_int f"
    with k kf have kf': "k = f + 1" by auto
    have "\<lfloor>y + 1 / 2\<rfloor> = f + 1"
      using h f by (intro floor_unique) simp_all
    moreover have "\<lceil>y - 1 / 2\<rceil> = f + 1"
      using h f by (intro ceiling_unique) simp_all
    ultimately show ?thesis
      using kf' by (simp add: round_half_away_def)
  qed
qed

lemma round_half_even_below_half:
  assumes "of_int f < z" and "z < of_int f + 1 / 2"
  shows "round_half_even z = f"
proof -
  have "\<lfloor>z\<rfloor> = f"
    using assms by (intro floor_unique) simp_all
  with assms show ?thesis
    by (simp add: round_half_even_def Let_def)
qed

lemma round_half_even_above_half:
  assumes "of_int f + 1 / 2 < z" and "z < of_int f + 1"
  shows "round_half_even z = f + 1"
proof -
  have "\<lfloor>z\<rfloor> = f"
    using assms by (intro floor_unique) simp_all
  with assms show ?thesis
    by (simp add: round_half_even_def Let_def)
qed

lemma round_half_even_small:
  assumes "\<bar>z\<bar> < 1 / 2"
  shows "round_half_even z = 0"
proof -
  have f: "of_int \<lfloor>z\<rfloor> \<le> z" "z < of_int \<lfloor>z\<rfloor> + 1" by linarith+
  from assms f have "(of_int (- 2) :: rat) < of_int \<lfloor>z\<rfloor>" "(of_int \<lfloor>z\<rfloor> :: rat) < of_int 1"
    by (simp_all add: abs_less_iff)
  then have "- 2 < \<lfloor>z\<rfloor>" "\<lfloor>z\<rfloor> < 1" by (simp_all only: of_int_less_iff)
  then have "\<lfloor>z\<rfloor> = 0 \<or> \<lfloor>z\<rfloor> = - 1" by linarith
  then show ?thesis
    using assms by (auto simp: round_half_even_def Let_def abs_less_iff)
qed

lemma binary64_round_0: "binary64_round 0 = 0"
  by (simp add: binary64_round_def round_half_even_def)

lemma binary64_exponent_cases:
  assumes "x \<noteq> 0"
  shows "(binary64_exponent x = - 1074 \<and> \<bar>x\<bar> < 2 powi (- 1022)) \<or>
         2 powi binary64_exponent x \<le> \<bar>x\<bar> / 2 ^ 52"
proof (cases "floor_log2 \<bar>x\<bar> - 52 < - 1074")
  case True
  from assms have "\<bar>x\<bar> < 2 powi (floor_log2 \<bar>x\<bar> + 1)"
    by (simp add: floor_log2_bounds)
  also have "\<dots> \<le> 2 powi (- 1022)"
    using True by (intro power_int_increasing) simp_all
  finally show ?thesis
    using True by (simp add: binary64_exponent_def max_def)
next
  case False
  then have e: "binary64_exponent x = floor_log2 \<bar>x\<bar> - 52"
    by (simp add: binary64_exponent_def max_def)
  have "(2::rat) powi (floor_log2 \<bar>x\<bar> - 52) = 2 powi floor_log2 \<bar>x\<bar> / 2 ^ 52"
    by (simp add: power_int_diff)
  also have "\<dots> \<le> \<bar>x\<bar> / 2 ^ 52"
    using assms by (simp add: floor_log2_bounds divide_right_mono)
  finally show ?thesis by (simp add: e)
qed

lemma binary64_round_no_overflow:
  assumes "\<bar>x\<bar> \<le> 2 ^ 63"
  shows "\<bar>binary64_round x\<bar> < 2 ^ 1024"
proof (cases "x = 0")
  case True
  then show ?thesis by (simp add: binary64_round_0)
next
  case False
  have small: "(2::rat) powi (- 1074) \<le> 2 powi 11"
    by (intro power_int_increasing) simp_all
  have "\<bar>x\<bar> / 2 ^ 52 \<le> 2 ^ 63 / 2 ^ 52"
    using assms by (intro divide_right_mono) simp_all
  then have "\<bar>x\<bar> / 2 ^ 52 \<le> 2 powi 11" by simp
  with binary64_exponent_cases [OF False] small
  have "2 powi binary64_exponent x \<le> (2::rat) powi 11" by auto
  with binary64_round_error [of x] have "\<bar>binary64_round x - x\<bar> \<le> 2 ^ 10" by simp
  with assms have "\<bar>binary64_round x\<bar> \<le> 2 ^ 63 + 2 ^ 10" by linarith
  also have "\<dots> < (2::rat) ^ 1024" by simp
  finally show ?thesis .
qed

lemma average_rounded:
  assumes n: "0 < n" and s: "200 * \<bar>s\<bar> < 2 ^ 53"
  shows "\<exists>x. py_truediv s n = Inr x \<and>
             rounded_to_2_places (of_int s / of_int n) (py_round x 2)"
proof -
  define q :: rat where "q = of_int s / of_int n"
  define x where "x = binary64_round q"
  define k where "k = round_half_even (x * 100)"
  have npos: "(0::rat) < of_int n" and n1: "(1::rat) \<le> of_int n"
    using n by simp_all
  have qn: "q * of_int n = of_int s"
    using npos by (simp add: q_def)
  have "\<bar>q\<bar> * of_int n = \<bar>q * of_int n\<bar>"
    using npos by (simp add: abs_mult)
  then have qs: "\<bar>q\<bar> * of_int n = of_int \<bar>s\<bar>"
    by (simp add: qn)
  have srat: "200 * (of_int \<bar>s\<bar> :: rat) < 2 ^ 53"
  proof -
    have "(of_int (200 * \<bar>s\<bar>) :: rat) < of_int (2 ^ 53)"
      using s by (simp only: of_int_less_iff)
    then show ?thesis by simp
  qed
  have "\<bar>q\<bar> \<le> \<bar>q\<bar> * of_int n"
    using n1 by (simp add: mult_le_cancel_left1)
  with qs srat have qabs: "\<bar>q\<bar> \<le> 2 ^ 63" by simp
  have tr: "py_truediv s n = Inr x"
    using n binary64_round_no_overflow [OF qabs]
    by (simp add: py_truediv_def x_def q_def Let_def not_le)
  have kx: "\<bar>of_int k - x * 100\<bar> \<le> 1 / 2"
    unfolding k_def by (rule round_half_even_error)
  have qle: "\<bar>q\<bar> \<le> of_int \<bar>s\<bar>"
    using \<open>\<bar>q\<bar> \<le> \<bar>q\<bar> * of_int n\<close> qs by simp
  have close: "\<bar>x * 100 - q * 100\<bar> < 1 / 2"
  proof (cases "q = 0")
    case True
    then show ?thesis by (simp add: x_def binary64_round_0)
  next
    case False
    from binary64_exponent_cases [OF False] show ?thesis
    proof
      assume sub: "binary64_exponent q = - 1074 \<and> \<bar>q\<bar> < 2 powi (- 1022)"
      have "(2::rat) powi (- 1074) \<le> 2 powi (- 10)"
        by (intro power_int_increasing) simp_all
      moreover from sub binary64_round_error [of q] have "\<bar>x - q\<bar> \<le> 2 powi (- 1074) / 2"
        by (simp add: x_def)
      ultimately have "\<bar>x - q\<bar> \<le> 1 / 1024" by simp
      then show ?thesis by linarith
    next
      assume "2 powi binary64_exponent q \<le> \<bar>q\<bar> / 2 ^ 52"
      with binary64_round_error [of q] have "\<bar>x - q\<bar> \<le> \<bar>q\<bar> / 2 ^ 53"
        by (simp add: x_def)
      with qle have "\<bar>x - q\<bar> \<le> of_int \<bar>s\<bar> / 2 ^ 53"
        by (simp add: field_simps)
      moreover from srat have "rat_of_int \<bar>s\<bar> / 2 ^ 53 < 1 / 200" by simp
      ultimately show ?thesis by linarith
    qed
  qed
  have near: "\<bar>of_int k / 100 - q\<bar> \<le> 1 / 200"
  proof (cases "q = 0")
    case True
    then have "x = 0" by (simp add: x_def binary64_round_0)
    then have "k = 0" by (simp add: k_def round_half_even_small)
    with True show ?thesis by simp
  next
    case False
    from binary64_exponent_cases [OF False] show ?thesis
    proof
      assume sub: "binary64_exponent q = - 1074 \<and> \<bar>q\<bar> < 2 powi (- 1022)"
      have p: "(2::rat) powi (- 1074) \<le> 2 powi (- 10)" "(2::rat) powi (- 1022) \<le> 2 powi (- 10)"
        by (intro power_int_increasing; simp)+
      from sub binary64_round_error [of q] have "\<bar>x - q\<bar> \<le> 2 powi (- 1074) / 2"
        by (simp add: x_def)
      with sub p have "\<bar>x - q\<bar> \<le> 1 / 1024" "\<bar>q\<bar> \<le> 1 / 1024" by simp_all
      then have x: "\<bar>x * 100\<bar> < 1 / 2" by linarith
      then have "k = 0" by (simp add: k_def round_half_even_small)
      with \<open>\<bar>q\<bar> \<le> 1 / 1024\<close> show ?thesis by simp
    next
      assume norm: "2 powi binary64_exponent q \<le> \<bar>q\<bar> / 2 ^ 52"
      with binary64_round_error [of q] have xq: "\<bar>x - q\<bar> \<le> \<bar>q\<bar> / 2 ^ 53"
        by (simp add: x_def)
      define m where "m = k * n - 100 * s"
      have m: "of_int m = (of_int k - q * 100) * of_int n"
        using qn by (simp add: m_def algebra_simps)
      have "\<bar>of_int k - q * 100\<bar> \<le> 1 / 2 + 100 * (\<bar>q\<bar> / 2 ^ 53)"
        using kx xq by linarith
      then have "\<bar>of_int k - q * 100\<bar> * of_int n \<le> (1 / 2 + 100 * (\<bar>q\<bar> / 2 ^ 53)) * of_int n"
        using npos by (simp only: mult_le_cancel_right_pos)
      also have "\<dots> = of_int n / 2 + 100 * of_int \<bar>s\<bar> / 2 ^ 53"
        using qs by (simp add: algebra_simps)
      also have "\<dots> < of_int n / 2 + 1 / 2"
        using srat by simp
      finally have "\<bar>(of_int k - q * 100) * of_int n\<bar> < of_int n / 2 + 1 / 2"
        using npos by (simp add: abs_mult)
      then have "(of_int \<bar>m\<bar> :: rat) < of_int n / 2 + 1 / 2"
        by (simp only: m [symmetric] of_int_abs)
      then have "(of_int (2 * \<bar>m\<bar>) :: rat) < of_int (n + 1)" by simp
      then have "2 * \<bar>m\<bar> < n + 1" by (simp only: of_int_less_iff)
      then have "2 * \<bar>m\<bar> \<le> n" by simp
      then have "(of_int (2 * \<bar>m\<bar>) :: rat) \<le> of_int n" by (simp only: of_int_le_iff)
      then have "\<bar>of_int m :: rat\<bar> \<le> 1 / 2 * of_int n" by simp
      then have "\<bar>(of_int k - q * 100) * of_int n\<bar> \<le> 1 / 2 * of_int n"
        by (simp only: m)
      then have "\<bar>of_int k - q * 100\<bar> * of_int n \<le> 1 / 2 * of_int n"
        using npos by (simp add: abs_mult)
      then have "\<bar>of_int k - q * 100\<bar> \<le> 1 / 2"
        using npos by (simp only: mult_le_cancel_right_pos)
      then show ?thesis by linarith
    qed
  qed
  from near have nearest: "\<bar>of_int k - q * 100\<bar> \<le> 1 / 2" by linarith
  have r: "py_round x 2 = binary64_round (of_int k / 100)"
    by (simp add: py_round_def k_def)
  have "rounded_to_2_places q (binary64_round (of_int k / 100))"
  proof (cases "halfway q")
    case False
    then have "q * 100 - of_int \<lfloor>q * 100\<rfloor> \<noteq> 1 / 2"
      by (simp add: halfway_def)
    from round_nearest_unique [OF nearest this] False show ?thesis
      by (simp add: rounded_to_2_places_def to_2_places_def)
  next
    case True
    define f where "f = \<lfloor>q * 100\<rfloor>"
    from True have h: "q * 100 = of_int f + 1 / 2"
      by (simp add: halfway_def f_def)
    consider "x < q" | "q < x" | "x = q" by linarith
    then show ?thesis
    proof cases
      case 1
      with close h have "of_int f < x * 100" "x * 100 < of_int f + 1 / 2" by linarith+
      then have "k = f" unfolding k_def by (rule round_half_even_below_half)
      with True 1 show ?thesis
        by (simp add: rounded_to_2_places_def x_def f_def)
    next
      case 2
      with close h have "of_int f + 1 / 2 < x * 100" "x * 100 < of_int f + 1" by linarith+
      then have "k = f + 1" unfolding k_def by (rule round_half_even_above_half)
      with True 2 show ?thesis
        by (simp add: rounded_to_2_places_def x_def f_def)
    next
      case 3
      with True show ?thesis
        by (simp add: rounded_to_2_places_def to_2_places_def x_def k_def)
    qed
  qed
  with tr r show ?thesis
    by (simp add: q_def)
qed

section \<open>Statistics\<close>

lemma py_max_Max: "xs \<noteq> [] \<Longrightarrow> py_max xs = Inr (Max (set xs))"
proof (cases xs)
  case Nil
  assume "xs \<noteq> []"
  with Nil show ?thesis by simp
next
  case (Cons y ys)
  have "fold max ys y = Max (set (y # ys))"
    by (rule Max.set_eq_fold [symmetric])
  with Cons show ?thesis by simp
qed

lemma sum_list_map_mset:
  assumes "mset xs = mset ys"
  shows "sum_list (map f xs) = (sum_list (map f ys) :: int)"
proof -
  have "sum_list (map f xs) = sum_mset (image_mset f (mset xs))"
    by (simp add: sum_mset_sum_list [symmetric])
  also have "\<dots> = sum_mset (image_mset f (mset ys))"
    by (simp add: assms)
  also have "\<dots> = sum_list (map f ys)"
    by (simp add: sum_mset_sum_list [symmetric])
  finally show ?thesis .
qed

lemma py_max_mset:
  assumes "mset xs = mset ys"
  shows "py_max (map f xs) = py_max (map f ys)"
proof (cases "xs = []")
  case True
  with assms show ?thesis by simp
next
  case False
  with assms have "ys \<noteq> []" by auto
  moreover from assms have "set xs = set ys" by (rule mset_eq_setD)
  ultimately show ?thesis
    using False by (simp add: py_max_Max)
qed

lemma compute_stats_mset:
  assumes "mset rs = mset rs'"
  shows "compute_stats rs = compute_stats rs'"
proof -
  from assms have e: "rs = [] \<longleftrightarrow> rs' = []" by auto
  from assms have l: "length rs = length rs'" by (rule mset_eq_length)
  show ?thesis
    unfolding compute_stats_def
    by (simp only: e l py_max_mset [OF assms] sum_list_map_mset [OF assms])
qed

lemma abs_sum_list_le:
  assumes "\<And>x. x \<in> set xs \<Longrightarrow> \<bar>f x\<bar> \<le> (B::int)"
  shows "\<bar>sum_list (map f xs)\<bar> \<le> int (length xs) * B"
  using assms
proof (induction xs)
  case Nil
  then show ?case by simp
next
  case (Cons x xs)
  then have "\<bar>f x\<bar> \<le> B" "\<bar>sum_list (map f xs)\<bar> \<le> int (length xs) * B" by simp_all
  then show ?case by (simp add: algebra_simps)
qed

lemma py_truediv_int64:
  assumes "rs \<noteq> []" and "\<And>r. r \<in> set rs \<Longrightarrow> int64 (f r)"
  shows "\<exists>x. py_truediv (sum_list (map f rs)) (int (length rs)) = Inr x"
proof -
  let ?s = "sum_list (map f rs)" and ?n = "int (length rs)"
  have n: "0 < ?n" using assms(1) by simp
  have "\<bar>f r\<bar> \<le> 2 ^ 63" if "r \<in> set rs" for r
    using assms(2) [OF that] unfolding int64_def by linarith
  then have "\<bar>?s\<bar> \<le> ?n * 2 ^ 63"
    by (rule abs_sum_list_le)
  then have "(of_int \<bar>?s\<bar> :: rat) \<le> of_int (?n * 2 ^ 63)"
    by (simp only: of_int_le_iff)
  then have "\<bar>of_int ?s / of_int ?n :: rat\<bar> \<le> 2 ^ 63"
    using n by (simp add: field_simps)
  from binary64_round_no_overflow [OF this] n show ?thesis
    by (simp add: py_truediv_def Let_def not_le)
qed

lemma compute_stats_total:
  assumes "\<And>r. r \<in> set rs \<Longrightarrow> valid_game_result r"
  shows "\<exists>st. compute_stats rs = Inr st"
proof (cases "rs = []")
  case True
  then show ?thesis by (simp add: compute_stats_def)
next
  case False
  from py_truediv_int64 [OF False, of score] assms obtain a where
    a: "py_truediv (sum_list (map score rs)) (int (length rs)) = Inr a"
    by (auto simp: valid_game_result_def)
  from py_truediv_int64 [OF False, of moves] assms obtain b where
    b: "py_truediv (sum_list (map moves rs)) (int (length rs)) = Inr b"
    by (auto simp: valid_game_result_def)
  from py_truediv_int64 [OF False, of time_taken] assms obtain c where
    c: "py_truediv (sum_list (map time_taken rs)) (int (length rs)) = Inr c"
    by (auto simp: valid_game_result_def)
  from False have "py_max (map score rs) = Inr (Max (set (map score rs)))"
    by (intro py_max_Max) simp
  with False a b c show ?thesis
    by (simp add: compute_stats_def Let_def del: set_map)
qed

lemma binary64_round_examples:
  "binary64_round 150 = 150" "binary64_round 15 = 15" "binary64_round 50 = 50"
  by code_simp+

lemma large_scores_quotient:
  "py_truediv 105553116266497 3 = Inr (4503599627370539 / 128)"
  by code_simp

lemma large_scores_round:
  "py_round (4503599627370539 / 128) 2 = 1125899906842635 / 32"
  by code_simp

lemma zero_quotient: "py_truediv 0 3 = Inr 0" "py_round 0 2 = 0" "py_truediv 0 40 = Inr 0"
  by code_simp+

lemma large_scores_policies:
  "binary64_round (to_2_places round_half_even (105553116266497 / 3)) = 2251799813685269 / 64"
  "binary64_round (to_2_places round_half_away (105553116266497 / 3)) = 2251799813685269 / 64"
  by code_simp+

lemma halfway_quotient:
  "py_truediv 107 40 = Inr (3011782250804019 / 1125899906842624)"
  "py_round (3011782250804019 / 1125899906842624) 2 = 1503076375634903 / 562949953421312"
  by code_simp+

lemma halfway_policies:
  "binary64_round (to_2_places round_half_even (107 / 40)) = 6034823500676465 / 2251799813685248"
  "binary64_round (to_2_places round_half_away (107 / 40)) = 6034823500676465 / 2251799813685248"
  by code_simp+

lemma halfway_below:
  "halfway (107 / 40)" "binary64_round (107 / 40) < 107 / 40"
  "binary64_round (of_int \<lfloor>107 / 40 * 100 :: rat\<rfloor> / 100) =
     1503076375634903 / 562949953421312"
  by code_simp+

lemma zero_rounded: "rounded_to_2_places 0 v \<longleftrightarrow> v = 0"
proof -
  have "\<lfloor>1 / 2 :: rat\<rfloor> = 0"
    by (rule floor_unique) simp_all
  then show ?thesis
    by (simp add: rounded_to_2_places_def halfway_def to_2_places_def round_half_even_def
        round_half_away_def binary64_round_0)
qed

lemma compute_stats_rounded:
  assumes "results \<noteq> []"
    and "200 * \<bar>sum_list (map score results)\<bar> < 2 ^ 53"
    and "200 * \<bar>sum_list (map moves results)\<bar> < 2 ^ 53"
    and "200 * \<bar>sum_list (map time_taken results)\<bar> < 2 ^ 53"
  shows "\<exists>st. compute_stats results = Inr st \<and>
           total_games st = int (length results) \<and>
           rounded_to_2_places
             (of_int (sum_list (map score results)) / of_int (int (length results)))
             (average_score st) \<and>
           rounded_to_2_places
             (of_int (sum_list (map moves results)) / of_int (int (length results)))
             (average_moves st) \<and>
           rounded_to_2_places
             (of_int (sum_list (map time_taken results)) / of_int (int (length results)))
             (average_time st) \<and>
           best_score st = Max (set (map score results)) \<and>
           total_time_played st = sum_list (map time_taken results)"
proof -
  have n: "0 < int (length results)"
    using assms(1) by simp
  from average_rounded [OF n assms(2)] obtain a where
    a: "py_truediv (sum_list (map score results)) (int (length results)) = Inr a"
       "rounded_to_2_places
          (of_int (sum_list (map score results)) / of_int (int (length results))) (py_round a 2)"
    by blast
  from average_rounded [OF n assms(3)] obtain b where
    b: "py_truediv (sum_list (map moves results)) (int (length results)) = Inr b"
       "rounded_to_2_places
          (of_int (sum_list (map moves results)) / of_int (int (length results))) (py_round b 2)"
    by blast
  from average_rounded [OF n assms(4)] obtain c where
    c: "py_truediv (sum_list (map time_taken results)) (int (length results)) = Inr c"
       "rounded_to_2_places
          (of_int (sum_list (map time_taken results)) / of_int (int (length results)))
          (py_round c 2)"
    by blast
  have m: "py_max (map score results) = Inr (Max (set (map score results)))"
    using assms(1) by (intro py_max_Max) simp
  show ?thesis
    using assms(1) a b c
    by (simp add: compute_stats_def Let_def m del: set_map)
qed

lemma compute_stats_integers:
  assumes "results \<noteq> []" and "compute_stats results = Inr st"
  shows "total_games st = int (length results) \<and>
         best_score st = Max (set (map score results)) \<and>
         total_time_played st = sum_list (map time_taken results)"
proof -
  have m: "py_max (map score results) = Inr (Max (set (map score results)))"
    using assms(1) by (intro py_max_Max) simp
  from assms show ?thesis
    by (auto simp: compute_stats_def Let_def m split: sum.splits simp del: set_map)
qed

subsection \<open>Empty input\<close>

text \<open>
  C5: for the empty sequence of game results the statistics are the all-zero dictionary,
  a value and not an error.
\<close>

theorem compute_stats_empty:
  "compute_stats [] =
     Inr \<lparr>total_games = 0, average_score = 0, average_moves = 0, average_time = 0,
          best_score = 0, total_time_played = 0\<rparr>"
  by (simp add: compute_stats_def)

subsection \<open>Non-empty input\<close>

text \<open>
  C1, as amended: for every non-empty sequence of valid game results the statistics are
  returned with \<open>total_games\<close> the count, \<open>best_score\<close> the maximum score and
  \<open>total_time_played\<close> the total time; and when the total score, the total moves and the
  total time are each below \<open>2^53 / 200\<close> in absolute value, each average is the float
  nearest to the total divided by the count and rounded to two decimal places, where
  half away from zero and banker's rounding agree whenever the quotient is not exactly
  halfway between two multiples of \<open>0.01\<close>; a quotient that is exactly halfway goes to the
  neighbour on the side of the float nearest to the quotient, and to the even neighbour
  when the quotient is itself a float (the three cases of \<open>rounded_to_2_places\<close>).
\<close>

theorem compute_stats_nonempty:
  "(results \<noteq> [] \<and> list_all valid_game_result results \<longrightarrow>
      (\<exists>st. compute_stats results = Inr st \<and>
            total_games st = int (length results) \<and>
            best_score st = Max (set (map score results)) \<and>
            total_time_played st = sum_list (map time_taken results))) \<and>
   (results \<noteq> [] \<and>
    200 * \<bar>sum_list (map score results)\<bar> < 2 ^ 53 \<and>
    200 * \<bar>sum_list (map moves results)\<bar> < 2 ^ 53 \<and>
    200 * \<bar>sum_list (map time_taken results)\<bar> < 2 ^ 53 \<longrightarrow>
      (\<exists>st. compute_stats results = Inr st \<and>
            rounded_to_2_places
              (of_int (sum_list (map score results)) / of_int (int (length results)))
              (average_score st) \<and>
            rounded_to_2_places
              (of_int (sum_list (map moves results)) / of_int (int (length results)))
              (average_moves st) \<and>
            rounded_to_2_places
              (of_int (sum_list (map time_taken results)) / of_int (int (length results)))
              (average_time st)))"
proof (intro conjI impI)
  assume a: "results \<noteq> [] \<and> list_all valid_game_result results"
  then obtain st where "compute_stats results = Inr st"
    using compute_stats_total [of results] by (auto simp: list_all_iff)
  with a compute_stats_integers [of results st]
  show "\<exists>st. compute_stats results = Inr st \<and>
            total_games st = int (length results) \<and>
            best_score st = Max (set (map score results)) \<and>
            total_time_played st = sum_list (map time_taken results)"
    by blast
next
  assume "results \<noteq> [] \<and>
    200 * \<bar>sum_list (map score results)\<bar> < 2 ^ 53 \<and>
    200 * \<bar>sum_list (map moves results)\<bar> < 2 ^ 53 \<and>
    200 * \<bar>sum_list (map time_taken results)\<bar> < 2 ^ 53"
  with compute_stats_rounded [of results]
  show "\<exists>st. compute_stats results = Inr st \<and>
            rounded_to_2_places
              (of_int (sum_list (map score results)) / of_int (int (length results)))
              (average_score st) \<and>
            rounded_to_2_places
              (of_int (sum_list (map moves results)) / of_int (int (length results)))
              (average_moves st) \<and>
            rounded_to_2_places
              (of_int (sum_list (map time_taken results)) / of_int (int (length results)))
              (average_time st)"
    by blast
qed

text \<open>
  The two results of the specification's example satisfy the hypotheses, and the theorem
  fixes their statistics: 2 games, averages 150, 15 and 50, best score 200, total time 100.
  So do 40 results with 107 moves in total, whose average of moves \<open>2.675\<close> is exactly
  halfway: the float nearest to \<open>107 / 40\<close> is below it, and the theorem fixes the average
  returned as the float nearest to \<open>2.67\<close>.
\<close>

theorem compute_stats_nonempty_witness:
  "compute_stats
     [\<lparr>r_id = 1, user_id = 1, score = 100, moves = 20, time_taken = 60,
       difficulty = Some ''medium'', grid_size = Some ''4x4'', completed = True, played_at = 0\<rparr>,
      \<lparr>r_id = 2, user_id = 1, score = 200, moves = 10, time_taken = 40,
       difficulty = Some ''medium'', grid_size = Some ''4x4'', completed = True, played_at = 0\<rparr>] =
   Inr \<lparr>total_games = 2, average_score = 150, average_moves = 15, average_time = 50,
        best_score = 200, total_time_played = 100\<rparr> \<and>
   compute_stats
     (replicate 39
        \<lparr>r_id = 1, user_id = 1, score = 0, moves = 0, time_taken = 0,
         difficulty = None, grid_size = None, completed = True, played_at = 0\<rparr> @
      [\<lparr>r_id = 2, user_id = 1, score = 0, moves = 107, time_taken = 0,
        difficulty = None, grid_size = None, completed = True, played_at = 0\<rparr>]) =
   Inr \<lparr>total_games = 40, average_score = 0,
        average_moves = 1503076375634903 / 562949953421312,
        average_time = 0, best_score = 0, total_time_played = 0\<rparr>"
proof
  let ?rs = "[\<lparr>r_id = 1, user_id = 1, score = 100, moves = 20, time_taken = 60,
       difficulty = Some ''medium'', grid_size = Some ''4x4'', completed = True, played_at = 0\<rparr>,
      \<lparr>r_id = 2, user_id = 1, score = 200, moves = 10, time_taken = 40,
       difficulty = Some ''medium'', grid_size = Some ''4x4'', completed = True, played_at = 0\<rparr>]"
  have v: "?rs \<noteq> [] \<and> list_all valid_game_result ?rs"
    by (simp add: valid_game_result_def int64_def)
  have h: "?rs \<noteq> [] \<and> 200 * \<bar>sum_list (map score ?rs)\<bar> < 2 ^ 53 \<and>
    200 * \<bar>sum_list (map moves ?rs)\<bar> < 2 ^ 53 \<and>
    200 * \<bar>sum_list (map time_taken ?rs)\<bar> < 2 ^ 53"
    by simp
  from compute_stats_nonempty [of ?rs, THEN conjunct1, rule_format, OF v] obtain st where
    st: "compute_stats ?rs = Inr st" "total_games st = 2"
      "best_score st = 200" "total_time_played st = 100"
    by auto
  from compute_stats_nonempty [of ?rs, THEN conjunct2, rule_format, OF h] st(1) have
    "rounded_to_2_places 150 (average_score st)"
    "rounded_to_2_places 15 (average_moves st)"
    "rounded_to_2_places 50 (average_time st)"
    by auto
  then have "average_score st = 150" "average_moves st = 15" "average_time st = 50"
    by (simp_all add: rounded_to_2_places_def halfway_def to_2_places_def round_half_even_def
        binary64_round_examples)
  with st(2-4) have "st = \<lparr>total_games = 2, average_score = 150, average_moves = 15,
      average_time = 50, best_score = 200, total_time_played = 100\<rparr>"
    by (cases st) simp
  with st(1) show "compute_stats ?rs =
    Inr \<lparr>total_games = 2, average_score = 150, average_moves = 15, average_time = 50,
        best_score = 200, total_time_played = 100\<rparr>"
    by simp
next
  let ?ts = "replicate 39
        \<lparr>r_id = 1, user_id = 1, score = 0, moves = 0, time_taken = 0,
         difficulty = None, grid_size = None, completed = True, played_at = 0\<rparr> @
      [\<lparr>r_id = 2, user_id = 1, score = 0, moves = 107, time_taken = 0,
        difficulty = None, grid_size = None, completed = True, played_at = 0\<rparr>]"
  have v: "?ts \<noteq> [] \<and> list_all valid_game_result ?ts"
    by (simp add: valid_game_result_def int64_def list_all_iff)
  have h: "?ts \<noteq> [] \<and> 200 * \<bar>sum_list (map score ?ts)\<bar> < 2 ^ 53 \<and>
    200 * \<bar>sum_list (map moves ?ts)\<bar> < 2 ^ 53 \<and>
    200 * \<bar>sum_list (map time_taken ?ts)\<bar> < 2 ^ 53"
    by (simp add: sum_list_replicate)
  from compute_stats_nonempty [of ?ts, THEN conjunct1, rule_format, OF v] obtain st where
    st: "compute_stats ?ts = Inr st" "total_games st = 40"
      "best_score st = 0" "total_time_played st = 0"
    by (auto simp: sum_list_replicate)
  from compute_stats_nonempty [of ?ts, THEN conjunct2, rule_format, OF h] st(1) have
    r: "rounded_to_2_places 0 (average_score st)"
    "rounded_to_2_places (107 / 40) (average_moves st)"
    "rounded_to_2_places 0 (average_time st)"
    by (auto simp: sum_list_replicate)
  from r(1,3) have "average_score st = 0" "average_time st = 0"
    by (simp_all only: zero_rounded)
  moreover from r(2) have "average_moves st = 1503076375634903 / 562949953421312"
    unfolding rounded_to_2_places_def
    by (simp only: halfway_below not_True_eq_False if_False if_True)
  ultimately have "average_score st = 0"
    "average_moves st = 1503076375634903 / 562949953421312" "average_time st = 0"
    by simp_all
  with st(2-4) have "st = \<lparr>total_games = 40, average_score = 0,
      average_moves = 1503076375634903 / 562949953421312,
      average_time = 0, best_score = 0, total_time_played = 0\<rparr>"
    by (cases st) simp
  with st(1) show "compute_stats ?ts =
    Inr \<lparr>total_games = 40, average_score = 0,
        average_moves = 1503076375634903 / 562949953421312,
        average_time = 0, best_score = 0, total_time_played = 0\<rparr>"
    by simp
qed

text \<open>
  The claim as stated fails in two ways.  Without the bound the averages are not the
  rounded quotients: three scores whose average is \<open>35184372088832.333...\<close> give the quotient
  \<open>35184372088832.3359375\<close> as a float, which rounds to \<open>35184372088832.34\<close>, returned as
  the float \<open>35184372088832.34375\<close>, while under both policies the average rounded to two
  places is \<open>35184372088832.33\<close>, as a float \<open>35184372088832.328125\<close>.  And within the
  bound a quotient that is exactly halfway follows neither policy: 40 results with 107
  moves in total have the average \<open>2.675\<close>, which both policies round to \<open>2.68\<close>, and the
  average returned is the float nearest to \<open>2.67\<close>.
\<close>

theorem compute_stats_average_counterexample:
  "compute_stats
     [\<lparr>r_id = 1, user_id = 1, score = 35184372088832, moves = 0, time_taken = 0,
       difficulty = None, grid_size = None, completed = True, played_at = 0\<rparr>,
      \<lparr>r_id = 2, user_id = 1, score = 35184372088832, moves = 0, time_taken = 0,
       difficulty = None, grid_size = None, completed = True, played_at = 0\<rparr>,
      \<lparr>r_id = 3, user_id = 1, score = 35184372088833, moves = 0, time_taken = 0,
       difficulty = None, grid_size = None, completed = True, played_at = 0\<rparr>] =
   Inr \<lparr>total_games = 3, average_score = 1125899906842635 / 32, average_moves = 0,
        average_time = 0, best_score = 35184372088833, total_time_played = 0\<rparr> \<and>
   binary64_round
     (to_2_places round_half_even
        (of_int (35184372088832 + 35184372088832 + 35184372088833) / of_int 3)) \<noteq>
     1125899906842635 / 32 \<and>
   binary64_round
     (to_2_places round_half_away
        (of_int (35184372088832 + 35184372088832 + 35184372088833) / of_int 3)) \<noteq>
     1125899906842635 / 32 \<and>
   compute_stats
     (replicate 39
        \<lparr>r_id = 1, user_id = 1, score = 0, moves = 0, time_taken = 0,
         difficulty = None, grid_size = None, completed = True, played_at = 0\<rparr> @
      [\<lparr>r_id = 2, user_id = 1, score = 0, moves = 107, time_taken = 0,
        difficulty = None, grid_size = None, completed = True, played_at = 0\<rparr>]) =
   Inr \<lparr>total_games = 40, average_score = 0,
        average_moves = 1503076375634903 / 562949953421312,
        average_time = 0, best_score = 0, total_time_played = 0\<rparr> \<and>
   binary64_round (to_2_places round_half_even (of_int 107 / of_int 40)) \<noteq>
     1503076375634903 / 562949953421312 \<and>
   binary64_round (to_2_places round_half_away (of_int 107 / of_int 40)) \<noteq>
     1503076375634903 / 562949953421312"
proof (intro conjI)
  show "compute_stats
     [\<lparr>r_id = 1, user_id = 1, score = 35184372088832, moves = 0, time_taken = 0,
       difficulty = None, grid_size = None, completed = True, played_at = 0\<rparr>,
      \<lparr>r_id = 2, user_id = 1, score = 35184372088832, moves = 0, time_taken = 0,
       difficulty = None, grid_size = None, completed = True, played_at = 0\<rparr>,
      \<lparr>r_id = 3, user_id = 1, score = 35184372088833, moves = 0, time_taken = 0,
       difficulty = None, grid_size = None, completed = True, played_at = 0\<rparr>] =
   Inr \<lparr>total_games = 3, average_score = 1125899906842635 / 32, average_moves = 0,
        average_time = 0, best_score = 35184372088833, total_time_played = 0\<rparr>"
    by (simp add: compute_stats_def large_scores_quotient large_scores_round zero_quotient)
  show "binary64_round
     (to_2_places round_half_even
        (of_int (35184372088832 + 35184372088832 + 35184372088833) / of_int 3)) \<noteq>
     1125899906842635 / 32"
    by (simp add: large_scores_policies)
  show "binary64_round
     (to_2_places round_half_away
        (of_int (35184372088832 + 35184372088832 + 35184372088833) / of_int 3)) \<noteq>
     1125899906842635 / 32"
    by (simp add: large_scores_policies)
  show "compute_stats
     (replicate 39
        \<lparr>r_id = 1, user_id = 1, score = 0, moves = 0, time_taken = 0,
         difficulty = None, grid_size = None, completed = True, played_at = 0\<rparr> @
      [\<lparr>r_id = 2, user_id = 1, score = 0, moves = 107, time_taken = 0,
        difficulty = None, grid_size = None, completed = True, played_at = 0\<rparr>]) =
   Inr \<lparr>total_games = 40, average_score = 0,
        average_moves = 1503076375634903 / 562949953421312,
        average_time = 0, best_score = 0, total_time_played = 0\<rparr>"
    by (simp add: compute_stats_def Let_def sum_list_replicate py_max_Max halfway_quotient
        zero_quotient)
  show "binary64_round (to_2_places round_half_even (of_int 107 / of_int 40)) \<noteq>
     1503076375634903 / 562949953421312"
    by (simp add: halfway_policies)
  show "binary64_round (to_2_places round_half_away (of_int 107 / of_int 40)) \<noteq>
     1503076375634903 / 562949953421312"
    by (simp add: halfway_policies)
qed

subsection \<open>Order of the input\<close>

text \<open>
  C6: the statistics of a sequence and of any permutation of it are the same, and for a
  sequence of valid rows the computation returns statistics and raises no exception.
\<close>

theorem compute_stats_order_irrelevant:
  "(mset results = mset results' \<longrightarrow> compute_stats results = compute_stats results') \<and>
   ((\<forall>r \<in> set results. valid_game_result r) \<longrightarrow> (\<exists>st. compute_stats results = Inr st))"
  using compute_stats_mset [of results results'] compute_stats_total [of results]
  by blast

theorem compute_stats_order_irrelevant_witness:
  "mset [\<lparr>r_id = 1, user_id = 7, score = 10, moves = 30, time_taken = 61,
          difficulty = Some ''easy'', grid_size = Some ''4x4'', completed = True, played_at = 5\<rparr>,
         \<lparr>r_id = 2, user_id = 7, score = 25, moves = 12, time_taken = 45,
          difficulty = Some ''hard'', grid_size = Some ''6x6'', completed = False, played_at = 9\<rparr>]
   = mset [\<lparr>r_id = 2, user_id = 7, score = 25, moves = 12, time_taken = 45,
          difficulty = Some ''hard'', grid_size = Some ''6x6'', completed = False, played_at = 9\<rparr>,
         \<lparr>r_id = 1, user_id = 7, score = 10, moves = 30, time_taken = 61,
          difficulty = Some ''easy'', grid_size = Some ''4x4'', completed = True, played_at = 5\<rparr>] \<and>
   compute_stats
        [\<lparr>r_id = 1, user_id = 7, score = 10, moves = 30, time_taken = 61,
          difficulty = Some ''easy'', grid_size = Some ''4x4'', completed = True, played_at = 5\<rparr>,
         \<lparr>r_id = 2, user_id = 7, score = 25, moves = 12, time_taken = 45,
          difficulty = Some ''hard'', grid_size = Some ''6x6'', completed = False, played_at = 9\<rparr>]
   = compute_stats
        [\<lparr>r_id = 2, user_id = 7, score = 25, moves = 12, time_taken = 45,
          difficulty = Some ''hard'', grid_size = Some ''6x6'', completed = False, played_at = 9\<rparr>,
         \<lparr>r_id = 1, user_id = 7, score = 10, moves = 30, time_taken = 61,
          difficulty = Some ''easy'', grid_size = Some ''4x4'', completed = True, played_at = 5\<rparr>] \<and>
   valid_game_result
         \<lparr>r_id = 1, user_id = 7, score = 10, moves = 30, time_taken = 61,
          difficulty = Some ''easy'', grid_size = Some ''4x4'', completed = True, played_at = 5\<rparr> \<and>
   valid_game_result
         \<lparr>r_id = 2, user_id = 7, score = 25, moves = 12, time_taken = 45,
          difficulty = Some ''hard'', grid_size = Some ''6x6'', completed = False, played_at = 9\<rparr> \<and>
   (\<exists>st. compute_stats
        [\<lparr>r_id = 1, user_id = 7, score = 10, moves = 30, time_taken = 61,
          difficulty = Some ''easy'', grid_size = Some ''4x4'', completed = True, played_at = 5\<rparr>,
         \<lparr>r_id = 2, user_id = 7, score = 25, moves = 12, time_taken = 45,
          difficulty = Some ''hard'', grid_size = Some ''6x6'', completed = False, played_at = 9\<rparr>]
       = Inr st)"
proof -
  let ?a = "\<lparr>r_id = 1, user_id = 7, score = 10, moves = 30, time_taken = 61,
          difficulty = Some ''easy'', grid_size = Some ''4x4'', completed = True, played_at = 5\<rparr>"
  let ?b = "\<lparr>r_id = 2, user_id = 7, score = 25, moves = 12, time_taken = 45,
          difficulty = Some ''hard'', grid_size = Some ''6x6'', completed = False, played_at = 9\<rparr>"
  have m: "mset [?a, ?b] = mset [?b, ?a]" by simp
  have v: "valid_game_result ?a" "valid_game_result ?b"
    by (simp_all add: valid_game_result_def int64_def)
  then have "\<forall>r \<in> set [?a, ?b]. valid_game_result r" by simp
  with m v compute_stats_order_irrelevant [of "[?a, ?b]" "[?b, ?a]"] show ?thesis
    by blast
qed

section \<open>Registration\<close>

lemma User_register:
  "User [(''username'', VStr n), (''email'', VStr e), (''password_hash'', VStr h),
         (''last_login'', VDatetime t)] =
   Inr [(''username'', VStr n), (''email'', VStr e), (''password_hash'', VStr h),
        (''last_login'', VDatetime t)]"
  by (simp add: User_def user_attributes_def)

lemma User_create_user:
  "User [(''username'', VStr n), (''auth_provider'', VStr a)] = Inl TypeError"
  by (simp add: User_def user_attributes_def)

lemma find_None_iff': "find P xs = None \<longleftrightarrow> \<not> list_ex P xs"
  by (auto simp: find_None_iff list_ex_iff)

lemma add_commit_user_register:
  "add_commit_user db now
     [(''username'', VStr n), (''email'', VStr e), (''password_hash'', VStr h),
      (''last_login'', VDatetime t)] =
   (if list_ex (\<lambda>u. username u = n \<or> email u = e) (users db) then Inl IntegrityError
    else Inr (\<lparr>u_id = next_user_id db, username = n, email = e, password_hash = h,
               created_at = now, last_login = Some t\<rparr>,
              db\<lparr>users := users db @
                [\<lparr>u_id = next_user_id db, username = n, email = e, password_hash = h,
                  created_at = now, last_login = Some t\<rparr>]\<rparr>))"
  by (simp add: add_commit_user_def Let_def)

lemma register_created:
  assumes "register env db data = ((b, 201), db')"
  shows "\<exists>e n h. map_of data ''email'' = Some e \<and> e \<noteq> [] \<and> email_regex_match e \<and>
           db' = db\<lparr>users := users db @
                [\<lparr>u_id = next_user_id db, username = n, email = e, password_hash = h,
                  created_at = env_utcnow env 1, last_login = Some (env_utcnow env 0)\<rparr>]\<rparr>"
  using assms
  by (auto simp: register_def User_register add_commit_user_register Let_def
      split: option.splits if_splits sum.splits prod.splits)

lemma register_keeps_or_appends:
  "snd (register env db data) = db \<or>
   (\<exists>u. snd (register env db data) = db\<lparr>users := users db @ [u]\<rparr> \<and>
        \<not> list_ex (\<lambda>v. username v = username u \<or> email v = email u) (users db))"
  by (auto simp: register_def User_register add_commit_user_register Let_def
      split: option.splits if_splits sum.splits prod.splits)

lemma unique_users_append:
  assumes "unique_users db"
    and "\<not> list_ex (\<lambda>v. username v = username u \<or> email v = email u) (users db)"
  shows "unique_users (db\<lparr>users := users db @ [u]\<rparr>)"
  using assms by (auto simp: unique_users_def list_ex_iff)

lemma register_first_example:
  "register
     \<lparr>env_secret = ''k'', env_hmac = (\<lambda>key x. ''signature''),
      env_kdf = (\<lambda>m s p. Inr (''00ff'', ''scrypt:32768:8:1'')), env_salt = ''abcdefgh12345678'',
      env_utcnow = (\<lambda>i. 1700000000000000 + int i)\<rparr>
     \<lparr>users = [], game_results = []\<rparr>
     [(''email'', ''a@b.com''), (''username'', ''alice''), (''password'', ''secret1'')] =
   ((AuthBody (UserDict 1 ''alice'' ''a@b.com'' 1700000000000001 (Some 1700000000000000))
       (Token ''HS256''
          [(''user_id'', VInt 1), (''exp'', VInt 1700604800), (''iat'', VInt 1700000000)]
          ''signature'')
       ''Registration successful'', 201),
    \<lparr>users = [\<lparr>u_id = 1, username = ''alice'', email = ''a@b.com'',
                password_hash = ''scrypt:32768:8:1$abcdefgh12345678$00ff'',
                created_at = 1700000000000001, last_login = Some 1700000000000000\<rparr>],
     game_results = []\<rparr>)"
  by code_simp

text \<open>
  C9: after a registration that succeeded, a registration attempt with the same email that
  supplies a username and a password is answered with the conflict
  \<^verbatim>\<open>Email already registered\<close> (status 409), whatever the username; an attempt with the
  same email creates no user; and a registration keeps usernames and emails unique.
\<close>

theorem register_same_email_conflict:
  "(register env db data = ((b, 201), db') \<and>
    map_of data' ''email'' = map_of data ''email'' \<and>
    map_of data' ''username'' = Some n \<and> n \<noteq> [] \<and>
    map_of data' ''password'' = Some p \<and> p \<noteq> []
    \<longrightarrow> register env' db' data' = ((ErrorBody ''Email already registered'', 409), db')) \<and>
   (register env db data = ((b, 201), db') \<and>
    map_of data' ''email'' = map_of data ''email''
    \<longrightarrow> snd (register env' db' data') = db') \<and>
   (unique_users db \<longrightarrow> unique_users (snd (register env db data)))"
proof (intro conjI impI)
  assume a: "register env db data = ((b, 201), db') \<and>
    map_of data' ''email'' = map_of data ''email'' \<and>
    map_of data' ''username'' = Some n \<and> n \<noteq> [] \<and>
    map_of data' ''password'' = Some p \<and> p \<noteq> []"
  then obtain e where e: "map_of data' ''email'' = Some e" "e \<noteq> []" "email_regex_match e"
    "list_ex (\<lambda>u. email u = e) (users db')"
    using register_created [of env db data b db'] by (auto simp: list_ex_iff)
  then have "find (\<lambda>u. email u = e) (users db') \<noteq> None"
    by (simp add: find_None_iff')
  moreover from a have "map_of data' ''username'' = Some n" "n \<noteq> []"
    "map_of data' ''password'' = Some p" "p \<noteq> []"
    by simp_all
  ultimately show "register env' db' data' = ((ErrorBody ''Email already registered'', 409), db')"
    using e by (simp add: register_def)
next
  assume a: "register env db data = ((b, 201), db') \<and>
    map_of data' ''email'' = map_of data ''email''"
  then obtain e where e: "map_of data' ''email'' = Some e"
    "list_ex (\<lambda>u. email u = e) (users db')"
    using register_created [of env db data b db'] by (auto simp: list_ex_iff)
  then have "find (\<lambda>u. email u = e) (users db') \<noteq> None"
    by (simp add: find_None_iff')
  with e show "snd (register env' db' data') = db'"
    by (simp add: register_def split: option.splits)
next
  assume "unique_users db"
  with register_keeps_or_appends [of env db data] show "unique_users (snd (register env db data))"
    by (auto intro: unique_users_append)
qed

text \<open>
  The specification's example: \<^verbatim>\<open>a@b.com\<close> registered as \<^verbatim>\<open>alice\<close>, then once more as \<^verbatim>\<open>bob\<close>.
\<close>

theorem register_same_email_conflict_witness:
  "register
     \<lparr>env_secret = ''k'', env_hmac = (\<lambda>key x. ''signature''),
      env_kdf = (\<lambda>m s p. Inr (''00ff'', ''scrypt:32768:8:1'')), env_salt = ''abcdefgh12345678'',
      env_utcnow = (\<lambda>i. 1700000000000000 + int i)\<rparr>
     \<lparr>users = [], game_results = []\<rparr>
     [(''email'', ''a@b.com''), (''username'', ''alice''), (''password'', ''secret1'')] =
   ((AuthBody (UserDict 1 ''alice'' ''a@b.com'' 1700000000000001 (Some 1700000000000000))
       (Token ''HS256''
          [(''user_id'', VInt 1), (''exp'', VInt 1700604800), (''iat'', VInt 1700000000)]
          ''signature'')
       ''Registration successful'', 201),
    \<lparr>users = [\<lparr>u_id = 1, username = ''alice'', email = ''a@b.com'',
                password_hash = ''scrypt:32768:8:1$abcdefgh12345678$00ff'',
                created_at = 1700000000000001, last_login = Some 1700000000000000\<rparr>],
     game_results = []\<rparr>) \<and>
   register
     \<lparr>env_secret = ''k'', env_hmac = (\<lambda>key x. ''signature''),
      env_kdf = (\<lambda>m s p. Inr (''00ff'', ''scrypt:32768:8:1'')), env_salt = ''8765432187654321'',
      env_utcnow = (\<lambda>i. 1700000000000900 + int i)\<rparr>
     \<lparr>users = [\<lparr>u_id = 1, username = ''alice'', email = ''a@b.com'',
                password_hash = ''scrypt:32768:8:1$abcdefgh12345678$00ff'',
                created_at = 1700000000000001, last_login = Some 1700000000000000\<rparr>],
      game_results = []\<rparr>
     [(''email'', ''a@b.com''), (''username'', ''bob''), (''password'', ''hunter22'')] =
   ((ErrorBody ''Email already registered'', 409),
    \<lparr>users = [\<lparr>u_id = 1, username = ''alice'', email = ''a@b.com'',
                password_hash = ''scrypt:32768:8:1$abcdefgh12345678$00ff'',
                created_at = 1700000000000001, last_login = Some 1700000000000000\<rparr>],
     game_results = []\<rparr>)"
proof -
  let ?data = "[(''email'', ''a@b.com''), (''username'', ''alice''), (''password'', ''secret1'')]"
  let ?data' = "[(''email'', ''a@b.com''), (''username'', ''bob''), (''password'', ''hunter22'')]"
  have same: "map_of ?data' ''email'' = map_of ?data ''email''"
    "map_of ?data' ''username'' = Some ''bob''" "''bob'' \<noteq> []"
    "map_of ?data' ''password'' = Some ''hunter22''" "''hunter22'' \<noteq> []"
    by simp_all
  note first = register_first_example
  from first same
    register_same_email_conflict [where data = ?data and data' = ?data' and n = "''bob''"
      and p = "''hunter22''", THEN conjunct1, rule_format, OF conjI [OF first]]
  show ?thesis by simp
qed

section \<open>The endpoint without credentials\<close>

text \<open>
  C10: \<^verbatim>\<open>create_user\<close> returns the stored user with the given username unchanged when there
  is one; when there is none, building the new \<^verbatim>\<open>User\<close> raises \<^verbatim>\<open>TypeError\<close> (\<^verbatim>\<open>auth_provider\<close> is
  no attribute of the model), and a commit of such a row would raise as well (no
  \<^verbatim>\<open>password_hash\<close>), so no request to the endpoint changes the database.
\<close>

theorem create_user_get_or_create:
  "(map_of d ''username'' = Some n \<and> find (\<lambda>u. username u = n) (users db) = Some existing
      \<longrightarrow> create_user now db (Some d) = (Inr (UserBody (to_dict existing), 200), db)) \<and>
   (map_of d ''username'' = Some n \<and> find (\<lambda>u. username u = n) (users db) = None
      \<longrightarrow> create_user now db (Some d) = (Inl TypeError, db)) \<and>
   User [(''username'', VStr n), (''auth_provider'', VStr ''username'')] = Inl TypeError \<and>
   add_commit_user db now [(''username'', VStr n), (''auth_provider'', VStr ''username'')] =
     Inl IntegrityError \<and>
   snd (create_user now db data) = db"
proof (intro conjI impI)
  show "User [(''username'', VStr n), (''auth_provider'', VStr ''username'')] = Inl TypeError"
    by (rule User_create_user)
  show "add_commit_user db now [(''username'', VStr n), (''auth_provider'', VStr ''username'')] =
     Inl IntegrityError"
    by (simp add: add_commit_user_def)
  show "snd (create_user now db data) = db"
    by (simp add: create_user_def User_create_user split: option.splits)
qed (simp_all add: create_user_def User_create_user)

text \<open>A database with the user \<^verbatim>\<open>alice\<close>: asked for \<^verbatim>\<open>alice\<close> and asked for \<^verbatim>\<open>bob\<close>.\<close>

theorem create_user_get_or_create_witness:
  "create_user 1700000000000000
     \<lparr>users = [\<lparr>u_id = 1, username = ''alice'', email = ''a@b.com'',
                password_hash = ''scrypt:32768:8:1$abcdefgh12345678$00ff'',
                created_at = 1700000000000001, last_login = None\<rparr>],
      game_results = []\<rparr>
     (Some [(''username'', ''alice'')]) =
   (Inr (UserBody (UserDict 1 ''alice'' ''a@b.com'' 1700000000000001 None), 200),
    \<lparr>users = [\<lparr>u_id = 1, username = ''alice'', email = ''a@b.com'',
                password_hash = ''scrypt:32768:8:1$abcdefgh12345678$00ff'',
                created_at = 1700000000000001, last_login = None\<rparr>],
     game_results = []\<rparr>) \<and>
   create_user 1700000000000000
     \<lparr>users = [\<lparr>u_id = 1, username = ''alice'', email = ''a@b.com'',
                password_hash = ''scrypt:32768:8:1$abcdefgh12345678$00ff'',
                created_at = 1700000000000001, last_login = None\<rparr>],
      game_results = []\<rparr>
     (Some [(''username'', ''bob'')]) =
   (Inl TypeError,
    \<lparr>users = [\<lparr>u_id = 1, username = ''alice'', email = ''a@b.com'',
                password_hash = ''scrypt:32768:8:1$abcdefgh12345678$00ff'',
                created_at = 1700000000000001, last_login = None\<rparr>],
     game_results = []\<rparr>)"
proof -
  let ?alice = "\<lparr>u_id = 1, username = ''alice'', email = ''a@b.com'',
                password_hash = ''scrypt:32768:8:1$abcdefgh12345678$00ff'',
                created_at = 1700000000000001, last_login = None\<rparr>"
  let ?db = "\<lparr>users = [?alice], game_results = []\<rparr>"
  have a: "map_of [(''username'', ''alice'')] ''username'' = Some ''alice'' \<and>
           find (\<lambda>u. username u = ''alice'') (users ?db) = Some ?alice"
    by simp
  have b: "map_of [(''username'', ''bob'')] ''username'' = Some ''bob'' \<and>
           find (\<lambda>u. username u = ''bob'') (users ?db) = None"
    by simp
  from create_user_get_or_create [where d = "[(''username'', ''alice'')]" and n = "''alice''"
      and db = ?db and existing = ?alice and now = 1700000000000000,
      THEN conjunct1, rule_format, OF a]
    create_user_get_or_create [where d = "[(''username'', ''bob'')]" and n = "''bob''"
      and db = ?db and now = 1700000000000000,
      THEN conjunct2, THEN conjunct1, rule_format, OF b]
  show ?thesis by (simp add: to_dict_def)
qed

section \<open>Tokens\<close>

lemma generate_jwt_token:
  "generate_jwt hmac secret now1 now2 uid =
     Token ''HS256''
       [(''user_id'', VInt uid),
        (''exp'', VInt ((now1 + 604800000000) div 1000000)),
        (''iat'', VInt (now2 div 1000000))]
       (hmac secret (''HS256'',
          [(''user_id'', VInt uid),
           (''exp'', VInt ((now1 + 604800000000) div 1000000)),
           (''iat'', VInt (now2 div 1000000))]))"
  by (simp add: generate_jwt_def jwt_encode_def to_timestamp_def JWT_ALGORITHM_def
      JWT_EXPIRATION_DAYS_def timedelta_days_def Let_def)


lemma generate_jwt_claims:
  "map_of (payload_of (generate_jwt hmac secret now1 now2 uid)) ''user_id'' = Some (VInt uid)"
  "map_of (payload_of (generate_jwt hmac secret now1 now2 uid)) ''exp'' =
     Some (VInt (now1 div 1000000 + 7 * 86400))"
  "map_of (payload_of (generate_jwt hmac secret now1 now2 uid)) ''iat'' =
     Some (VInt (now2 div 1000000))"
proof -
  have "(now1 + 604800000000) div 1000000 = now1 div 1000000 + 604800"
    by simp
  then show
    "map_of (payload_of (generate_jwt hmac secret now1 now2 uid)) ''user_id'' = Some (VInt uid)"
    "map_of (payload_of (generate_jwt hmac secret now1 now2 uid)) ''exp'' =
       Some (VInt (now1 div 1000000 + 7 * 86400))"
    "map_of (payload_of (generate_jwt hmac secret now1 now2 uid)) ''iat'' =
       Some (VInt (now2 div 1000000))"
    by (simp_all add: generate_jwt_token payload_of_def)
qed

text \<open>
  C8: the token encodes the user identifier, an issued-at time and an expiry.  The expiry
  is seven days after the first clock reading and the issued-at time is the second clock
  reading: with the first reading at \<open>1700000000.999999\<close> and the second at
  \<open>1700000001.000001\<close> seconds the encoded expiry is the issued-at time plus seven days
  less one second.
\<close>

theorem generate_jwt_two_clock_readings:
  "generate_jwt (\<lambda>key x. ''signature'') ''k'' 1700000000999999 1700000001000001 42 =
     Token ''HS256''
       [(''user_id'', VInt 42), (''exp'', VInt 1700604800), (''iat'', VInt 1700000001)]
       ''signature'' \<and>
   (1700604800 :: int) \<noteq> 1700000001 + 7 * 86400"
  by (simp add: generate_jwt_token)

text \<open>
  C2: a token generated for a user identifier, verified with the same secret at a time
  that is not before its issue and is before its encoded expiry, yields that user
  identifier.
\<close>

theorem verify_generated_token:
  assumes "tok = generate_jwt hmac secret now1 now2 uid"
    and "map_of (payload_of tok) ''exp'' = Some (VInt expiry)"
    and "now < expiry * 1000000"
    and "now2 \<le> now"
  shows "verify_jwt hmac secret now tok = Inr (VInt uid)"
proof -
  have "now2 div 1000000 * 1000000 \<le> now2"
    by (simp add: minus_mod_eq_div_mult [symmetric])
  with assms(4) have iat: "\<not> now < now2 div 1000000 * 1000000" by simp
  from assms(1,2) have "expiry = (now1 + 604800000000) div 1000000"
    by (simp add: generate_jwt_token payload_of_def)
  with assms(3) have ex: "\<not> (now1 + 604800000000) div 1000000 * 1000000 \<le> now" by simp
  show ?thesis
    using iat ex
    by (simp add: assms(1) generate_jwt_token verify_jwt_def jwt_decode_def validate_iat_def
        validate_exp_def JWT_ALGORITHM_def)
qed

text \<open>A token for user 42, verified one second after its issue.\<close>

theorem verify_generated_token_witness:
  "verify_jwt (\<lambda>key x. ''signature'') ''k'' 1700000002000000
     (generate_jwt (\<lambda>key x. ''signature'') ''k'' 1700000000999999 1700000001000001 42) =
   Inr (VInt 42)"
proof -
  let ?tok = "generate_jwt (\<lambda>key x. ''signature'') ''k'' 1700000000999999 1700000001000001 42"
  have "map_of (payload_of ?tok) ''exp'' = Some (VInt 1700604800)"
    by (simp add: generate_jwt_token payload_of_def)
  from verify_generated_token [OF refl this] show ?thesis by simp
qed




section \<open>Password hashes\<close>

lemma dropWhile_no_dollar:
  "dropWhile (\<lambda>c. c \<noteq> CHR ''$'') s = [] \<longleftrightarrow> count_dollar s = 0"
  by (induction s) (auto simp: count_dollar_def)

lemma count_dollar_dropWhile:
  "count_dollar (dropWhile (\<lambda>c. c \<noteq> CHR ''$'') s) = count_dollar s"
  by (induction s) (auto simp: count_dollar_def)

lemma split_dollar_None: "split_dollar s = None \<longleftrightarrow> count_dollar s < 2"
proof (cases "dropWhile (\<lambda>c. c \<noteq> CHR ''$'') s")
  case Nil
  then have "split_dollar s = None"
    by (simp only: split_dollar_def list.case)
  moreover from Nil have "count_dollar s = 0"
    by (simp only: dropWhile_no_dollar)
  ultimately show ?thesis by simp
next
  case outer: (Cons c r)
  then have "c = CHR ''$''"
    using hd_dropWhile [of "\<lambda>c. c \<noteq> CHR ''$''" s] by auto
  with outer count_dollar_dropWhile [of s] have s: "count_dollar s = Suc (count_dollar r)"
    by (simp add: count_dollar_def)
  show ?thesis
  proof (cases "dropWhile (\<lambda>c. c \<noteq> CHR ''$'') r")
    case Nil
    with outer have "split_dollar s = None"
      by (simp only: split_dollar_def list.case)
    moreover from Nil have "count_dollar r = 0"
      by (simp only: dropWhile_no_dollar)
    ultimately show ?thesis using s by simp
  next
    case (Cons d t)
    with outer have "split_dollar s \<noteq> None"
      by (simp only: split_dollar_def list.case) simp
    moreover from Cons have "count_dollar r \<noteq> 0"
      using dropWhile_no_dollar [of r] by (simp del: dropWhile_eq_Nil_conv)
    ultimately show ?thesis using s by simp
  qed
qed

lemma takeWhile_dollar:
  "CHR ''$'' \<notin> set m \<Longrightarrow> takeWhile (\<lambda>c. c \<noteq> CHR ''$'') (m @ CHR ''$'' # r) = m"
  by (induction m) auto

lemma dropWhile_dollar:
  "CHR ''$'' \<notin> set m \<Longrightarrow> dropWhile (\<lambda>c. c \<noteq> CHR ''$'') (m @ CHR ''$'' # r) = CHR ''$'' # r"
  by (induction m) auto

lemma split_dollar_join:
  assumes "CHR ''$'' \<notin> set m" and "CHR ''$'' \<notin> set s"
  shows "split_dollar (m @ ''$'' @ s @ ''$'' @ d) = Some (m, s, d)"
  using assms by (simp add: split_dollar_def takeWhile_dollar dropWhile_dollar)






text \<open>
  The claim as stated fails for two calls that draw the same salt: \<^verbatim>\<open>gen_salt\<close> draws each of
  the 16 characters from \<open>SALT_CHARS\<close> anew in every call, so a second call can draw the salt
  of the first, and the two stored hashes of the password are then the same string.
\<close>

theorem hash_password_same_salt:
  "(let first_salt = ''abcdefgh12345678''; second_salt = ''abcdefgh12345678'' in
      gen_salt_range 16 first_salt \<and> gen_salt_range 16 second_salt \<and>
      hash_password (\<lambda>m s p. Inr (''00ff'', ''scrypt:32768:8:1'')) first_salt ''secret1'' =
        Inr ''scrypt:32768:8:1$abcdefgh12345678$00ff'' \<and>
      hash_password (\<lambda>m s p. Inr (''00ff'', ''scrypt:32768:8:1'')) second_salt ''secret1'' =
        Inr ''scrypt:32768:8:1$abcdefgh12345678$00ff'')"
  by (simp add: gen_salt_range_def SALT_CHARS_def hash_password_def generate_password_hash_def
      hash_internal_def method_name_def)

text \<open>
  C7, as amended: for a stored hash with fewer than two dollar signs \<^verbatim>\<open>verify_password\<close>
  returns false and raises nothing; for a stored hash of three fields whose method is
  neither \<^verbatim>\<open>scrypt\<close> nor \<^verbatim>\<open>pbkdf2\<close> it raises \<^verbatim>\<open>ValueError\<close>.
\<close>

theorem verify_password_malformed:
  "(count_dollar pw_hash < 2 \<longrightarrow> verify_password kdf pw_hash p = Inr False) \<and>
   (CHR ''$'' \<notin> set m \<and> CHR ''$'' \<notin> set s \<and>
    method_name m \<noteq> ''scrypt'' \<and> method_name m \<noteq> ''pbkdf2''
    \<longrightarrow> verify_password kdf (m @ ''$'' @ s @ ''$'' @ d) p = Inl ValueError)"
proof (intro conjI impI)
  assume "count_dollar pw_hash < 2"
  then have "split_dollar pw_hash = None" by (simp add: split_dollar_None)
  then show "verify_password kdf pw_hash p = Inr False"
    by (simp add: verify_password_def check_password_hash_def)
next
  assume a: "CHR ''$'' \<notin> set m \<and> CHR ''$'' \<notin> set s \<and>
    method_name m \<noteq> ''scrypt'' \<and> method_name m \<noteq> ''pbkdf2''"
  then have "split_dollar (m @ ''$'' @ s @ ''$'' @ d) = Some (m, s, d)"
    by (intro split_dollar_join) simp_all
  with a show "verify_password kdf (m @ ''$'' @ s @ ''$'' @ d) p = Inl ValueError"
    by (simp add: verify_password_def check_password_hash_def hash_internal_def)
qed

text \<open>A stored hash without a dollar sign, and one with the method \<^verbatim>\<open>md5\<close>.\<close>

theorem verify_password_malformed_witness:
  "count_dollar ''not-a-hash'' < 2 \<and>
   verify_password (\<lambda>m s p. Inr (''00ff'', m)) ''not-a-hash'' ''pw'' = Inr False \<and>
   CHR ''$'' \<notin> set ''md5'' \<and> CHR ''$'' \<notin> set ''salt'' \<and>
   method_name ''md5'' \<noteq> ''scrypt'' \<and> method_name ''md5'' \<noteq> ''pbkdf2'' \<and>
   verify_password (\<lambda>m s p. Inr (''00ff'', m)) ''md5$salt$0123abcd'' ''pw'' = Inl ValueError"
proof -
  let ?kdf = "(\<lambda>m s p. Inr (''00ff'', m)) :: kdf"
  have a: "count_dollar ''not-a-hash'' < 2"
    by (simp add: count_dollar_def)
  have b: "CHR ''$'' \<notin> set ''md5'' \<and> CHR ''$'' \<notin> set ''salt'' \<and>
      method_name ''md5'' \<noteq> ''scrypt'' \<and> method_name ''md5'' \<noteq> ''pbkdf2''"
    by (simp add: method_name_def)
  from verify_password_malformed [where pw_hash = "''not-a-hash''" and kdf = ?kdf
      and p = "''pw''", THEN conjunct1,
      rule_format, OF a]
    verify_password_malformed [where kdf = ?kdf and p = "''pw''" and m = "''md5''"
      and s = "''salt''" and d = "''0123abcd''",
      THEN conjunct2, rule_format, OF b]
    a b
  show ?thesis by simp
qed

text \<open>
  The stored hash \<^verbatim>\<open>x$y$z\<close> is malformed, and \<^verbatim>\<open>verify_password\<close> does not return false for
  it: it raises \<^verbatim>\<open>ValueError\<close>.
\<close>

theorem verify_password_raises:
  "verify_password (\<lambda>m s p. Inr (''00ff'', m)) ''x$y$z'' ''pw'' = Inl ValueError"
  by (simp add: verify_password_def check_password_hash_def hash_internal_def split_dollar_def
      method_name_def)

end
